theory Spec2Isabelle
  imports Complex_Main "HOL-Library.AList"
begin

section \<open>Conventions of the embedding\<close>

text \<open>
  The development embeds \<^verbatim>\<open>premise/electricity.py\<close>.

  \<^item> Quantities (exchange amounts, shares, losses, efficiencies) are Python or numpy floats
    in the source. They are embedded as \<^typ>\<open>real\<close>: the theorems are about the formulas the
    code evaluates, not about binary rounding.
  \<^item> A division of Python floats or integers by zero raises \<^verbatim>\<open>ZeroDivisionError\<close>; this is
    the branch \<open>Inl ZeroDivisionError\<close>. A division of numpy scalars by zero does not raise:
    numpy goes on with \<^verbatim>\<open>inf\<close> or \<^verbatim>\<open>nan\<close>. The reals hold no such value, so the
    embedding stops there with \<open>Inl NonFiniteFloat\<close>.
  \<^item> Strings are byte strings; \<^verbatim>\<open>str.lower\<close> is embedded on the ASCII letters.
  \<^item> A wurst dataset and a wurst exchange are Python dictionaries with a fixed set of keys;
    they are records here. The keys \<^verbatim>\<open>code\<close> (a fresh uuid), \<^verbatim>\<open>comment\<close>,
    \<^verbatim>\<open>uncertainty type\<close>, \<^verbatim>\<open>loc\<close> and \<^verbatim>\<open>production volume\<close> of the
    datasets and exchanges that the code creates are written and never read back by the
    embedded functions; they are left out.
\<close>

datatype error =
    ZeroDivisionError
  | IndexError
  | KeyError
  | NoResults
  | MultipleResults
  | NonFiniteFloat

text \<open>Sequencing of fallible steps: the first exception ends the computation.\<close>

definition bind_err :: "error + 'a \<Rightarrow> ('a \<Rightarrow> error + 'b) \<Rightarrow> error + 'b" where
  "bind_err m f = (case m of Inl e \<Rightarrow> Inl e | Inr x \<Rightarrow> f x)"

fun map_err :: "('a \<Rightarrow> error + 'b) \<Rightarrow> 'a list \<Rightarrow> error + 'b list" where
  "map_err f [] = Inr []"
| "map_err f (x # xs) =
     (case f x of
        Inl e \<Rightarrow> Inl e
      | Inr y \<Rightarrow> (case map_err f xs of Inl e \<Rightarrow> Inl e | Inr ys \<Rightarrow> Inr (y # ys)))"

text \<open>\<^verbatim>\<open>a / b\<close> on Python floats.\<close>

definition py_truediv :: "real \<Rightarrow> real \<Rightarrow> error + real" where
  "py_truediv a b = (if b = 0 then Inl ZeroDivisionError else Inr (a / b))"

text \<open>\<^verbatim>\<open>a / b\<close> on numpy scalars.\<close>

definition np_truediv :: "real \<Rightarrow> real \<Rightarrow> error + real" where
  "np_truediv a b = (if b = 0 then Inl NonFiniteFloat else Inr (a / b))"

subsection \<open>Strings\<close>

definition lower_char :: "char \<Rightarrow> char" where
  "lower_char c =
     (let n = (of_char c :: nat) in if 65 \<le> n \<and> n \<le> 90 then char_of (n + 32) else c)"

definition lower :: "string \<Rightarrow> string" where
  "lower s = map lower_char s"

definition startswith :: "string \<Rightarrow> string \<Rightarrow> bool" where
  "startswith s p = (take (length p) s = p)"

text \<open>\<^verbatim>\<open>needle in hay\<close> on strings.\<close>

fun str_in :: "string \<Rightarrow> string \<Rightarrow> bool" where
  "str_in needle [] = (needle = [])"
| "str_in needle (c # cs) = (startswith (c # cs) needle \<or> str_in needle cs)"

section \<open>Data model\<close>

record exchange =
  exc_name :: string
  exc_product :: string
  exc_location :: string
  exc_unit :: string
  exc_type :: string
  exc_amount :: real

text \<open>
  A biosphere exchange has the keys \<^verbatim>\<open>name\<close>, \<^verbatim>\<open>unit\<close>, \<^verbatim>\<open>type\<close>,
  \<^verbatim>\<open>amount\<close>, \<^verbatim>\<open>categories\<close> and \<^verbatim>\<open>input\<close>; the code never reads its product
  or location, which hold the empty string in the record.
\<close>

record dataset =
  ds_name :: string
  ds_reference_product :: string
  ds_location :: string
  ds_unit :: string
  ds_database :: string
  ds_exchanges :: "exchange list"
  ds_log_parameters :: "(string \<times> real) list"

section \<open>Loss model\<close>

text \<open>
  One row of \<^verbatim>\<open>losses_per_country.csv\<close>, as \<^verbatim>\<open>get_losses_per_country_dict\<close> returns it:
  the columns that \<^verbatim>\<open>get_production_weighted_losses\<close> reads.
\<close>

record loss_row =
  transformation_loss_high_voltage :: real
  transformation_loss_medium_voltage :: real
  transmission_loss_to_medium_voltage :: real
  transformation_loss_low_voltage :: real
  transmission_loss_to_low_voltage :: real
  production_volume :: real

record tier_loss =
  transf_loss :: real
  distr_loss :: real

record network_losses =
  high :: tier_loss
  medium :: tier_loss
  low :: tier_loss

text \<open>
  The default of each \<^verbatim>\<open>losses.get(loc, {...})\<close>: every key that the loop reads is zero.
\<close>

definition zero_loss_row :: loss_row where
  "zero_loss_row =
     \<lparr>transformation_loss_high_voltage = 0, transformation_loss_medium_voltage = 0,
      transmission_loss_to_medium_voltage = 0, transformation_loss_low_voltage = 0,
      transmission_loss_to_low_voltage = 0, production_volume = 0\<rparr>"

definition losses_get :: "(string \<rightharpoonup> loss_row) \<Rightarrow> string \<Rightarrow> loss_row" where
  "losses_get losses loc = (case losses loc of None \<Rightarrow> zero_loss_row | Some row \<Rightarrow> row)"

text \<open>
  The three \<^verbatim>\<open>for loc in locs\<close> loops. The accumulator holds
  \<^verbatim>\<open>cumul_prod\<close>, \<^verbatim>\<open>transf_loss\<close> and \<^verbatim>\<open>distr_loss\<close>; the first loop has no
  \<^verbatim>\<open>distr_loss\<close> and is run with a column that is constantly zero.
\<close>

fun accumulate_losses ::
  "(string \<rightharpoonup> loss_row) \<Rightarrow> (loss_row \<Rightarrow> real) \<Rightarrow> (loss_row \<Rightarrow> real) \<Rightarrow> string list \<Rightarrow>
   real \<times> real \<times> real \<Rightarrow> real \<times> real \<times> real" where
  "accumulate_losses losses transf distr [] acc = acc"
| "accumulate_losses losses transf distr (loc # locs) (cumul_prod, t_loss, d_loss) =
     (let dict_loss = losses_get losses loc in
      accumulate_losses losses transf distr locs
        (cumul_prod + production_volume dict_loss,
         t_loss + transf dict_loss * production_volume dict_loss,
         d_loss + distr dict_loss * production_volume dict_loss))"

definition get_production_weighted_losses ::
  "(string \<rightharpoonup> loss_row) \<Rightarrow> string list \<Rightarrow> error + network_losses" where
  "get_production_weighted_losses losses locs =
     (case accumulate_losses losses transformation_loss_high_voltage (\<lambda>_. 0) locs (0, 0, 0) of
        (cumul_prod, t_loss, _) \<Rightarrow>
     bind_err (py_truediv t_loss cumul_prod) (\<lambda>t_loss.
     let high_tier = \<lparr>transf_loss = t_loss, distr_loss = 0\<rparr> in
     (case accumulate_losses losses transformation_loss_medium_voltage
             transmission_loss_to_medium_voltage locs (0, 0, 0) of
        (cumul_prod, t_loss, d_loss) \<Rightarrow>
     bind_err (py_truediv t_loss cumul_prod) (\<lambda>t_loss.
     bind_err (py_truediv d_loss cumul_prod) (\<lambda>d_loss.
     let medium_tier = \<lparr>transf_loss = t_loss, distr_loss = d_loss\<rparr> in
     (case accumulate_losses losses transformation_loss_low_voltage
             transmission_loss_to_low_voltage locs (0, 0, 0) of
        (cumul_prod, t_loss, d_loss) \<Rightarrow>
     bind_err (py_truediv t_loss cumul_prod) (\<lambda>t_loss.
     bind_err (py_truediv d_loss cumul_prod) (\<lambda>d_loss.
     let low_tier = \<lparr>transf_loss = t_loss, distr_loss = d_loss\<rparr> in
     Inr \<lparr>high = high_tier, medium = medium_tier, low = low_tier\<rparr>))))))))"

section \<open>Allocation engine\<close>

text \<open>
  \<^verbatim>\<open>self.production_per_tech\<close>: the production index, keyed by (name, location). It is
  built once by \<^verbatim>\<open>get_production_per_tech_dict\<close> and only read afterwards.
\<close>

type_synonym production_index = "string \<times> string \<rightharpoonup> real"

text \<open>\<^verbatim>\<open>float(self.production_per_tech.get((ds["name"], ds["location"]), 0))\<close>\<close>

definition indexed_volume :: "production_index \<Rightarrow> dataset \<Rightarrow> real" where
  "indexed_volume production_per_tech ds =
     (case production_per_tech (ds_name ds, ds_location ds) of None \<Rightarrow> 0 | Some v \<Rightarrow> v)"

text \<open>The loop \<^verbatim>\<open>for loc in suppliers: total_production += ...\<close>\<close>

fun sum_production :: "production_index \<Rightarrow> dataset list \<Rightarrow> real \<Rightarrow> real" where
  "sum_production production_per_tech [] total_production = total_production"
| "sum_production production_per_tech (loc # suppliers) total_production =
     sum_production production_per_tech suppliers
       (total_production + indexed_volume production_per_tech loc)"

definition get_production_weighted_share ::
  "production_index \<Rightarrow> dataset \<Rightarrow> dataset list \<Rightarrow> error + real" where
  "get_production_weighted_share production_per_tech supplier suppliers =
     (let loc_production = indexed_volume production_per_tech supplier;
          total_production = sum_production production_per_tech suppliers 0
      in if total_production \<noteq> 0 then py_truediv loc_production total_production
         else py_truediv 1 (real (length suppliers)))"

text \<open>
  \<^verbatim>\<open>check_for_production_volume\<close>: the list comprehension calls
  \<^verbatim>\<open>get_production_weighted_share(supplier, suppliers)\<close> with the whole list for every
  element, in order.
\<close>

fun keep_with_volume ::
  "production_index \<Rightarrow> dataset list \<Rightarrow> dataset list \<Rightarrow> error + dataset list" where
  "keep_with_volume production_per_tech suppliers [] = Inr []"
| "keep_with_volume production_per_tech suppliers (supplier # rest) =
     bind_err (get_production_weighted_share production_per_tech supplier suppliers) (\<lambda>share.
     bind_err (keep_with_volume production_per_tech suppliers rest) (\<lambda>kept.
     Inr (if share \<noteq> 0 then supplier # kept else kept)))"

definition check_for_production_volume ::
  "production_index \<Rightarrow> dataset list \<Rightarrow> error + dataset list" where
  "check_for_production_volume production_per_tech suppliers =
     keep_with_volume production_per_tech suppliers suppliers"

text \<open>
  The block that \<^verbatim>\<open>create_new_markets_low_voltage\<close> (lines 345 to 363) and
  \<^verbatim>\<open>create_new_markets_high_voltage\<close> (lines 856 to 875) both run on the resolved
  suppliers of a technology: drop the suppliers without volume, compute the shares, drop
  the shares that are not above 0.001, divide the others by their sum. Its value is what
  \<^verbatim>\<open>tech_suppliers[technology]\<close> holds afterwards.
\<close>

definition allocate_suppliers ::
  "production_index \<Rightarrow> dataset list \<Rightarrow> error + (dataset \<times> real) list" where
  "allocate_suppliers production_per_tech resolved =
     bind_err (check_for_production_volume production_per_tech resolved) (\<lambda>suppliers.
     bind_err (map_err (\<lambda>supplier.
                 bind_err (get_production_weighted_share production_per_tech supplier suppliers)
                   (\<lambda>share. Inr (supplier, share))) suppliers) (\<lambda>with_share.
     let above = filter (\<lambda>supplier. snd supplier > 0.001) with_share;
         total_share = sum_list (map snd above)
     in map_err (\<lambda>supplier.
          bind_err (py_truediv (snd supplier) total_share) (\<lambda>share. Inr (fst supplier, share)))
          above))"

section \<open>Python dictionaries and formatting\<close>

text \<open>
  A Python \<^verbatim>\<open>dict\<close> keeps its keys in the order of their first insertion and a later
  value replaces an earlier one in place: an association list under \<^const>\<open>AList.update\<close>.
  \<open>py_dict\<close> is \<^verbatim>\<open>dict(pairs)\<close>.
\<close>

definition py_dict :: "('k \<times> 'v) list \<Rightarrow> ('k \<times> 'v) list" where
  "py_dict pairs = foldl (\<lambda>d (k, v). AList.update k v d) [] pairs"

text \<open>\<^verbatim>\<open>d[k]\<close>\<close>

definition dict_get :: "('k \<times> 'v) list \<Rightarrow> 'k \<Rightarrow> error + 'v" where
  "dict_get d k = (case map_of d k of None \<Rightarrow> Inl KeyError | Some v \<Rightarrow> Inr v)"

text \<open>\<^verbatim>\<open>str(n)\<close> for a non-negative integer, as the f-strings of the period names use it.\<close>

fun str_nat :: "nat \<Rightarrow> string" where
  "str_nat n =
     (if n < 10 then [char_of (48 + n)]
      else str_nat (n div 10) @ [char_of (48 + n mod 10)])"

declare str_nat.simps [simp del]

text \<open>The loop of a method over a list, threading the object and stopping at an exception.\<close>

fun fold_err :: "('s \<Rightarrow> 'a \<Rightarrow> error + 's) \<Rightarrow> 's \<Rightarrow> 'a list \<Rightarrow> error + 's" where
  "fold_err f s [] = Inr s"
| "fold_err f s (x # xs) = (case f s x of Inl e \<Rightarrow> Inl e | Inr s' \<Rightarrow> fold_err f s' xs)"

section \<open>The transformation object\<close>

text \<open>
  The attributes of \<^verbatim>\<open>Electricity\<close> that the embedded methods read or write. The
  collaborators that the class inherits or imports, whose code is not part of
  \<^verbatim>\<open>electricity.py\<close>, are fields as well, so that every theorem holds for any of their
  implementations:
  \<^item> \<open>get_suppliers_of_a_region database locations names reference_prod unit\<close>;
  \<^item> \<open>select_multiple_suppliers database possible_names dataset_location\<close>, the items of
    the dictionary it returns, a key being (name, location, reference product, unit);
  \<^item> \<open>iam_to_ecoinvent_location\<close> of \<^verbatim>\<open>self.geo\<close>;
  \<^item> \<open>variables\<close>, the technology labels of \<^verbatim>\<open>self.iam_data.electricity_markets\<close>,
    \<open>markets_sel region\<close>, the values of \<^verbatim>\<open>.sel(region=region, year=self.year)\<close>, and
    \<open>markets_mean region period\<close>, the values of
    \<^verbatim>\<open>.sel(region=region).interp(year=np.arange(self.year, self.year + period + 1)).mean(dim="year")\<close>;
  \<^item> \<open>fetch_proxies database name ref_prod production_variable\<close>, the values of the
    dictionary of region-specific copies that it returns;
  \<^item> \<open>ecoinvent_to_iam_location\<close> of \<^verbatim>\<open>self.geo\<close>;
  \<^item> \<open>technologies_map\<close>, the items of the dictionary that \<^verbatim>\<open>self.get_iam_mapping\<close>
    returns to \<^verbatim>\<open>update_electricity_efficiency\<close>: for each technology its name
    filters, its fuel filters and its two functions
    \<open>current_eff_func dataset fuel_filters energy_content\<close> and
    \<open>IAM_eff_func variable location\<close>;
  \<^item> \<open>module_eff technology\<close>, the value of
    \<^verbatim>\<open>get_efficiency_solar_photovoltaics().sel(technology=technology).interp(year=self.year)\<close>.
\<close>

type_synonym supplier_key = "string \<times> string \<times> string \<times> string"

record technology_mapping =
  technology_filters :: "string list"
  fuel_filters :: "string list"
  current_eff_func :: "dataset \<Rightarrow> string list \<Rightarrow> real \<Rightarrow> real"
  IAM_eff_func :: "string \<Rightarrow> string \<Rightarrow> real"

record electricity =
  database :: "dataset list"
  regions :: "string list"
  system_model :: string
  powerplant_map :: "string \<rightharpoonup> string list"
  powerplant_map_rev :: "string \<rightharpoonup> string"
  production_per_tech :: production_index
  network_loss :: "string \<rightharpoonup> network_losses"
  created :: "(string \<times> string \<times> string \<times> string) list"
  variables :: "string list"
  markets_sel :: "string \<Rightarrow> real list"
  markets_mean :: "string \<Rightarrow> nat \<Rightarrow> real list"
  iam_to_ecoinvent_location :: "string \<Rightarrow> string list"
  get_suppliers_of_a_region ::
    "dataset list \<Rightarrow> string list \<Rightarrow> string list \<Rightarrow> string \<Rightarrow> string \<Rightarrow> dataset list"
  select_multiple_suppliers ::
    "dataset list \<Rightarrow> string list \<Rightarrow> string \<Rightarrow> (supplier_key \<times> real) list"
  fetch_proxies :: "dataset list \<Rightarrow> string \<Rightarrow> string \<Rightarrow> string option \<Rightarrow> dataset list"
  ecoinvent_to_iam_location :: "string \<Rightarrow> string"
  technologies_map :: "(string \<times> technology_mapping) list"
  module_eff :: "string \<Rightarrow> real"

text \<open>\<^verbatim>\<open>self.network_loss[region]\<close>\<close>

definition network_loss_of :: "electricity \<Rightarrow> string \<Rightarrow> error + network_losses" where
  "network_loss_of self region =
     (case network_loss self region of None \<Rightarrow> Inl KeyError | Some l \<Rightarrow> Inr l)"

text \<open>\<^verbatim>\<open>self.database[1]["database"]\<close>\<close>

definition database_label :: "electricity \<Rightarrow> error + string" where
  "database_label self =
     (if length (database self) < 2 then Inl IndexError
      else Inr (ds_database (database self ! 1)))"

definition periods :: "electricity \<Rightarrow> nat list" where
  "periods self = (if system_model self = ''consequential'' then [0] else [0, 20, 40, 60])"

text \<open>
  The dictionary \<^verbatim>\<open>electricity_mix\<close> of a region and a period: the zip of the labels
  with the values of the year in the consequential mode, with the mean over the period
  otherwise.
\<close>

definition electricity_mix :: "electricity \<Rightarrow> string \<Rightarrow> nat \<Rightarrow> (string \<times> real) list" where
  "electricity_mix self region period =
     py_dict (zip (variables self)
       (if system_model self = ''consequential'' then markets_sel self region
        else markets_mean self region period))"

text \<open>\<^verbatim>\<open>"solar pv residential" in tech.lower()\<close>\<close>

definition residential_solar :: "string \<Rightarrow> bool" where
  "residential_solar tech = str_in ''solar pv residential'' (lower tech)"

text \<open>
  \<^verbatim>\<open>{technology: self.powerplant_map[technology] for technology in technologies}\<close>
\<close>

definition ecoinvent_technologies ::
  "electricity \<Rightarrow> string list \<Rightarrow> error + (string \<times> string list) list" where
  "ecoinvent_technologies self technologies =
     bind_err (map_err (\<lambda>technology.
                 case powerplant_map self technology of
                   None \<Rightarrow> Inl KeyError
                 | Some names \<Rightarrow> Inr (technology, names)) technologies)
       (\<lambda>pairs. Inr (py_dict pairs))"

section \<open>Supplier resolver\<close>

definition possible_locations :: "electricity \<Rightarrow> string \<Rightarrow> string list list" where
  "possible_locations self region =
     [[region], iam_to_ecoinvent_location self region, [''RER''], [''RoW''], [''CH'']]"

text \<open>
  The loop \<^verbatim>\<open>while len(suppliers) == 0\<close>: the argument is what is left of
  \<^verbatim>\<open>possible_locations\<close> from index \<^verbatim>\<open>counter\<close> on, and reading past its end is
  the \<^verbatim>\<open>IndexError\<close> of \<^verbatim>\<open>possible_locations[counter]\<close>.
\<close>

fun resolve_suppliers ::
  "electricity \<Rightarrow> string list \<Rightarrow> string list list \<Rightarrow> error + dataset list" where
  "resolve_suppliers self names [] = Inl IndexError"
| "resolve_suppliers self names (locations # remaining) =
     (let suppliers = get_suppliers_of_a_region self (database self) locations names
                        ''electricity'' ''kilowatt hour''
      in if length suppliers = 0 then resolve_suppliers self names remaining
         else Inr suppliers)"

text \<open>Resolution and allocation for one technology, as both market builders chain them.\<close>

definition suppliers_of_technology ::
  "electricity \<Rightarrow> string \<Rightarrow> string list \<Rightarrow> error + (dataset \<times> real) list" where
  "suppliers_of_technology self region names =
     bind_err (resolve_suppliers self names (possible_locations self region))
       (allocate_suppliers (production_per_tech self))"

section \<open>High voltage markets\<close>

text \<open>
  The loop \<^verbatim>\<open>for technology in ecoinvent_technologies\<close> of the high voltage builder.
  \<^verbatim>\<open>tech_suppliers\<close> is a \<^verbatim>\<open>defaultdict(list)\<close>: a function that is \<open>[]\<close> where
  nothing was stored. Each key of the dictionary is visited once, so the list of the
  technology is empty before its suppliers are appended. The handler
  \<^verbatim>\<open>except IndexError\<close> continues in the consequential mode and raises again otherwise;
  any other exception passes through.
\<close>

fun hv_tech_suppliers ::
  "electricity \<Rightarrow> string \<Rightarrow> (string \<times> string list) list \<Rightarrow>
   (string \<Rightarrow> (dataset \<times> real) list) \<Rightarrow> error + (string \<Rightarrow> (dataset \<times> real) list)" where
  "hv_tech_suppliers self region [] tech_suppliers = Inr tech_suppliers"
| "hv_tech_suppliers self region ((technology, names) # rest) tech_suppliers =
     (case suppliers_of_technology self region names of
        Inl e \<Rightarrow>
          if e = IndexError then
            if system_model self = ''consequential''
            then hv_tech_suppliers self region rest tech_suppliers
            else Inl e
          else Inl e
      | Inr allocation \<Rightarrow>
          hv_tech_suppliers self region rest (tech_suppliers(technology := allocation)))"

text \<open>
  \<^verbatim>\<open>solar_amount\<close> and \<^verbatim>\<open>renewable_share\<close> of the high voltage builder: sums over
  the keys of the mix.
\<close>

definition hv_solar_amount :: "(string \<times> real) list \<Rightarrow> real" where
  "hv_solar_amount mix = sum_list (map snd (filter (\<lambda>kv. residential_solar (fst kv)) mix))"

definition renewable_techs :: "string list" where
  "renewable_techs =
     [''solar'', ''wind'', ''geothermal'', ''hydro'', ''biomass'', ''biogas'', ''wave'']"

definition hv_renewable_share :: "(string \<times> real) list \<Rightarrow> real" where
  "hv_renewable_share mix =
     sum_list (map snd
       (filter (\<lambda>kv. \<exists>x \<in> set renewable_techs. str_in x (lower (fst kv))) mix))"

text \<open>The exchange that a supplier dataset receives in a market.\<close>

definition supply_exchange :: "dataset \<Rightarrow> real \<Rightarrow> exchange" where
  "supply_exchange supplier amount =
     \<lparr>exc_name = ds_name supplier, exc_product = ds_reference_product supplier,
      exc_location = ds_location supplier, exc_unit = ds_unit supplier,
      exc_type = ''technosphere'', exc_amount = amount\<rparr>"

text \<open>
  The loop \<^verbatim>\<open>for technology in technologies\<close> that adds the supply of the technologies
  (lines 989 to 1008). The amounts are numpy scalars.
\<close>

fun hv_supply_exchanges ::
  "(string \<times> real) list \<Rightarrow> (string \<Rightarrow> (dataset \<times> real) list) \<Rightarrow> real \<Rightarrow> string list \<Rightarrow>
   error + exchange list" where
  "hv_supply_exchanges mix tech_suppliers solar_amount [] = Inr []"
| "hv_supply_exchanges mix tech_suppliers solar_amount (technology # rest) =
     bind_err (dict_get mix technology) (\<lambda>amount.
     bind_err (if amount > 0
               then map_err (\<lambda>(supplier, share).
                      bind_err (np_truediv (amount * share) (1 - solar_amount))
                        (\<lambda>a. Inr (supply_exchange supplier a)))
                      (tech_suppliers technology)
               else Inr []) (\<lambda>new_exchanges.
     bind_err (hv_supply_exchanges mix tech_suppliers solar_amount rest) (\<lambda>more.
     Inr (new_exchanges @ more))))"

definition period_suffix :: "nat \<Rightarrow> string" where
  "period_suffix period = (if period \<noteq> 0 then '', '' @ str_nat period @ ''-year period'' else [])"

definition hv_technologies :: "electricity \<Rightarrow> string list" where
  "hv_technologies self = filter (\<lambda>tech. \<not> residential_solar tech) (variables self)"

text \<open>
  One pass of \<^verbatim>\<open>for period in periods\<close> of the high voltage builder, up to
  \<^verbatim>\<open>self.database.append(new_dataset)\<close>: the dataset it appends.
\<close>

definition hv_dataset ::
  "electricity \<Rightarrow> string \<Rightarrow> real \<Rightarrow> (string \<Rightarrow> (dataset \<times> real) list) \<Rightarrow> nat \<Rightarrow>
   error + dataset" where
  "hv_dataset self region t_loss tech_suppliers period =
     (let mix = electricity_mix self region period in
      bind_err (database_label self) (\<lambda>label.
      let new_exchanges =
            [\<lparr>exc_name = ''market group for electricity, high voltage'' @ period_suffix period,
              exc_product = ''electricity, high voltage'', exc_location = region,
              exc_unit = ''kilowatt hour'', exc_type = ''production'', exc_amount = 1\<rparr>,
             \<lparr>exc_name = ''market group for electricity, high voltage'' @ period_suffix period,
              exc_product = ''electricity, high voltage'', exc_location = region,
              exc_unit = ''kilowatt hour'', exc_type = ''technosphere'', exc_amount = t_loss\<rparr>];
          solar_amount = hv_solar_amount mix;
          renewable_share = hv_renewable_share mix
      in
      bind_err (hv_supply_exchanges mix tech_suppliers solar_amount (hv_technologies self))
        (\<lambda>supply.
      bind_err (if mix = [] then Inl ZeroDivisionError
                else np_truediv (renewable_share - solar_amount) (sum_list (map snd mix)))
        (\<lambda>logged_share.
      Inr \<lparr>ds_name = ''market group for electricity, high voltage'' @ period_suffix period,
           ds_reference_product = ''electricity, high voltage'',
           ds_location = region,
           ds_unit = ''kilowatt hour'',
           ds_database = label,
           ds_exchanges = new_exchanges @ supply,
           ds_log_parameters =
             [(''distribution loss'', 0), (''transformation loss'', t_loss),
              (''renewable share'', logged_share)]\<rparr>))))"

text \<open>
  \<^verbatim>\<open>self.database.append(new_dataset)\<close> and the entry in the ledger of created datasets,
  \<^verbatim>\<open>self.modified_datasets[(self.model, self.scenario, self.year)]["created"]\<close>. The call of
  \<^verbatim>\<open>self.write_log\<close> in between only writes to the log file.
\<close>

definition append_created :: "electricity \<Rightarrow> dataset \<Rightarrow> electricity" where
  "append_created self new_dataset =
     self\<lparr>database := database self @ [new_dataset],
          created := created self @
            [(ds_name new_dataset, ds_reference_product new_dataset,
              ds_location new_dataset, ds_unit new_dataset)]\<rparr>"

text \<open>One pass of \<^verbatim>\<open>for region in self.regions\<close> of the high voltage builder.\<close>

definition hv_region ::
  "(string \<times> string list) list \<Rightarrow> electricity \<Rightarrow> string \<Rightarrow> error + electricity" where
  "hv_region eco_technologies self region =
     bind_err (network_loss_of self region) (\<lambda>losses.
     let t_loss = transf_loss (high losses) in
     bind_err (hv_tech_suppliers self region eco_technologies (\<lambda>_. [])) (\<lambda>tech_suppliers.
     fold_err (\<lambda>self period.
         bind_err (hv_dataset self region t_loss tech_suppliers period) (\<lambda>new_dataset.
         Inr (append_created self new_dataset)))
       self (periods self)))"

definition create_new_markets_high_voltage :: "electricity \<Rightarrow> error + electricity" where
  "create_new_markets_high_voltage self =
     bind_err (ecoinvent_technologies self (hv_technologies self)) (\<lambda>eco_technologies.
     fold_err (hv_region eco_technologies) self (regions self))"

section \<open>Medium voltage markets\<close>

text \<open>
  The exchanges that a market receives from the suppliers that
  \<^verbatim>\<open>select_multiple_suppliers\<close> returns, with the coefficient of the tier.
\<close>

definition supplier_exchanges :: "real \<Rightarrow> (supplier_key \<times> real) list \<Rightarrow> exchange list" where
  "supplier_exchanges coefficient possible_suppliers =
     map (\<lambda>((name, location, product, unit), share).
            \<lparr>exc_name = name, exc_product = product, exc_location = location,
             exc_unit = unit, exc_type = ''technosphere'',
             exc_amount = coefficient * share\<rparr>)
       possible_suppliers"

text \<open>
  The emission of sulfur hexafluoride that goes with the supply. Its key \<^verbatim>\<open>input\<close> is
  read from \<^verbatim>\<open>self.biosphere_dict\<close>, the table of biosphere flows of the package, which
  holds this flow; the key is not part of the record.
\<close>

definition sf6_emission :: "real \<Rightarrow> exchange" where
  "sf6_emission amount =
     \<lparr>exc_name = ''Sulfur hexafluoride'', exc_product = [], exc_location = [],
      exc_unit = ''kilogram'', exc_type = ''biosphere'', exc_amount = amount\<rparr>"

text \<open>One pass of \<^verbatim>\<open>for period in periods\<close> of the medium voltage builder.\<close>

definition mv_dataset :: "electricity \<Rightarrow> string \<Rightarrow> tier_loss \<Rightarrow> nat \<Rightarrow> error + dataset" where
  "mv_dataset self region losses period =
     bind_err (database_label self) (\<lambda>label.
     Inr \<lparr>ds_name = ''market group for electricity, medium voltage'' @ period_suffix period,
          ds_reference_product = ''electricity, medium voltage'',
          ds_location = region,
          ds_unit = ''kilowatt hour'',
          ds_database = label,
          ds_exchanges =
            [\<lparr>exc_name = ''market group for electricity, medium voltage'' @ period_suffix period,
              exc_product = ''electricity, medium voltage'', exc_location = region,
              exc_unit = ''kilowatt hour'', exc_type = ''production'', exc_amount = 1\<rparr>,
             \<lparr>exc_name = (if period = 0 then ''market group for electricity, high voltage''
                          else ''market group for electricity, high voltage, '' @ str_nat period
                               @ ''-year period''),
              exc_product = ''electricity, high voltage'', exc_location = region,
              exc_unit = ''kilowatt hour'', exc_type = ''technosphere'',
              exc_amount = 1 + distr_loss losses\<rparr>,
             \<lparr>exc_name = (if period = 0 then ''market group for electricity, medium voltage''
                          else ''market group for electricity, medium voltage, '' @ str_nat period
                               @ ''-year period''),
              exc_product = ''electricity, medium voltage'', exc_location = region,
              exc_unit = ''kilowatt hour'', exc_type = ''technosphere'',
              exc_amount = transf_loss losses\<rparr>]
            @ supplier_exchanges (5.4 / 10 ^ 8)
                (select_multiple_suppliers self (database self)
                   [''market for sulfur hexafluoride, liquid''] region)
            @ [sf6_emission (5.4 / 10 ^ 8)]
            @ supplier_exchanges (1.8628 / 10 ^ 8)
                (select_multiple_suppliers self (database self)
                   [''transmission network construction, electricity, medium voltage''] region),
          ds_log_parameters =
            [(''distribution loss'', distr_loss losses),
             (''transformation loss'', transf_loss losses),
             (''renewable share'', 0)]\<rparr>)"

definition mv_region :: "electricity \<Rightarrow> string \<Rightarrow> error + electricity" where
  "mv_region self region =
     bind_err (network_loss_of self region) (\<lambda>losses.
     fold_err (\<lambda>self period.
         bind_err (mv_dataset self region (medium losses) period) (\<lambda>new_dataset.
         Inr (append_created self new_dataset)))
       self (periods self))"

definition create_new_markets_medium_voltage :: "electricity \<Rightarrow> error + electricity" where
  "create_new_markets_medium_voltage self = fold_err mv_region self (regions self)"

section \<open>Low voltage markets\<close>

definition lv_technologies :: "electricity \<Rightarrow> string list" where
  "lv_technologies self = filter residential_solar (variables self)"

text \<open>
  The loop \<^verbatim>\<open>for technology in ecoinvent_technologies\<close> of the low voltage builder: it
  has no handler, so the \<^verbatim>\<open>IndexError\<close> of an exhausted chain leaves the method.
\<close>

fun lv_tech_suppliers ::
  "electricity \<Rightarrow> string \<Rightarrow> (string \<times> string list) list \<Rightarrow>
   (string \<Rightarrow> (dataset \<times> real) list) \<Rightarrow> error + (string \<Rightarrow> (dataset \<times> real) list)" where
  "lv_tech_suppliers self region [] tech_suppliers = Inr tech_suppliers"
| "lv_tech_suppliers self region ((technology, names) # rest) tech_suppliers =
     bind_err (suppliers_of_technology self region names) (\<lambda>allocation.
     lv_tech_suppliers self region rest (tech_suppliers(technology := allocation)))"

text \<open>
  The loop that adds the contribution of solar power (lines 511 to 534). It returns
  \<^verbatim>\<open>solar_amount\<close>, whether a technology contributed (\<^verbatim>\<open>solar_amount\<close> is then a
  numpy scalar, and the integer \<^verbatim>\<open>0\<close> otherwise) and the exchanges it appended.
\<close>

fun lv_solar_exchanges ::
  "(string \<times> real) list \<Rightarrow> (string \<Rightarrow> (dataset \<times> real) list) \<Rightarrow> string list \<Rightarrow>
   real \<times> bool \<Rightarrow> error + real \<times> bool \<times> exchange list" where
  "lv_solar_exchanges mix tech_suppliers [] (solar_amount, contributed) =
     Inr (solar_amount, contributed, [])"
| "lv_solar_exchanges mix tech_suppliers (technology # rest) (solar_amount, contributed) =
     bind_err (dict_get mix technology) (\<lambda>amount.
     if amount > 0 then
       bind_err (lv_solar_exchanges mix tech_suppliers rest (solar_amount + amount, True))
         (\<lambda>(total, flag, more).
       Inr (total, flag,
            map (\<lambda>(supplier, share). supply_exchange supplier (amount * share))
              (tech_suppliers technology) @ more))
     else lv_solar_exchanges mix tech_suppliers rest (solar_amount, contributed))"

text \<open>One pass of \<^verbatim>\<open>for period in periods\<close> of the low voltage builder.\<close>

definition lv_dataset ::
  "electricity \<Rightarrow> string \<Rightarrow> tier_loss \<Rightarrow> (string \<Rightarrow> (dataset \<times> real) list) \<Rightarrow> nat \<Rightarrow>
   error + dataset" where
  "lv_dataset self region losses tech_suppliers period =
     (let mix = electricity_mix self region period in
      bind_err (database_label self) (\<lambda>label.
      let new_exchanges =
            [\<lparr>exc_name = ''market group for electricity, low voltage'' @ period_suffix period,
              exc_product = ''electricity, low voltage'', exc_location = region,
              exc_unit = ''kilowatt hour'', exc_type = ''production'', exc_amount = 1\<rparr>]
            @ supplier_exchanges (2.99 / 10 ^ 9)
                (select_multiple_suppliers self (database self)
                   [''market for sulfur hexafluoride, liquid''] region)
            @ [sf6_emission (2.99 / 10 ^ 9)]
            @ supplier_exchanges (8.74 / 10 ^ 8)
                (select_multiple_suppliers self (database self)
                   [''distribution network construction, electricity, low voltage''] region)
      in
      bind_err (lv_solar_exchanges mix tech_suppliers (lv_technologies self) (0, False))
        (\<lambda>(solar_amount, contributed, solar).
      let tail_exchanges =
            [\<lparr>exc_name = (if period = 0 then ''market group for electricity, medium voltage''
                          else ''market group for electricity, medium voltage, '' @ str_nat period
                               @ ''-year period''),
              exc_product = ''electricity, medium voltage'', exc_location = region,
              exc_unit = ''kilowatt hour'', exc_type = ''technosphere'',
              exc_amount = (1 - solar_amount) * (1 + distr_loss losses)\<rparr>,
             \<lparr>exc_name = (if period = 0 then ''market group for electricity, low voltage''
                          else ''market group for electricity, low voltage, '' @ str_nat period
                               @ ''-year period''),
              exc_product = ''electricity, low voltage'', exc_location = region,
              exc_unit = ''kilowatt hour'', exc_type = ''technosphere'',
              exc_amount = transf_loss losses\<rparr>]
      in
      bind_err (if contributed then np_truediv solar_amount (1 + distr_loss losses)
                else py_truediv solar_amount (1 + distr_loss losses))
        (\<lambda>logged_share.
      Inr \<lparr>ds_name = ''market group for electricity, low voltage'' @ period_suffix period,
           ds_reference_product = ''electricity, low voltage'',
           ds_location = region,
           ds_unit = ''kilowatt hour'',
           ds_database = label,
           ds_exchanges = new_exchanges @ solar @ tail_exchanges,
           ds_log_parameters =
             [(''distribution loss'', distr_loss losses),
              (''transformation loss'', transf_loss losses),
              (''renewable share'', logged_share)]\<rparr>))))"

definition lv_region ::
  "(string \<times> string list) list \<Rightarrow> electricity \<Rightarrow> string \<Rightarrow> error + electricity" where
  "lv_region eco_technologies self region =
     bind_err (network_loss_of self region) (\<lambda>losses.
     bind_err (lv_tech_suppliers self region eco_technologies (\<lambda>_. [])) (\<lambda>tech_suppliers.
     fold_err (\<lambda>self period.
         bind_err (lv_dataset self region (low losses) tech_suppliers period) (\<lambda>new_dataset.
         Inr (append_created self new_dataset)))
       self (periods self)))"

definition create_new_markets_low_voltage :: "electricity \<Rightarrow> error + electricity" where
  "create_new_markets_low_voltage self =
     bind_err (ecoinvent_technologies self (lv_technologies self)) (\<lambda>eco_technologies.
     fold_err (lv_region eco_technologies) self (regions self))"

section \<open>Region-specific power plants\<close>

text \<open>
  \<^verbatim>\<open>ws.get_one\<close> of wurst: the single dataset that passes the filters; it raises
  \<^verbatim>\<open>NoResults\<close> when there is none and \<^verbatim>\<open>MultipleResults\<close> when there are several.
\<close>

definition get_one :: "dataset list \<Rightarrow> (dataset \<Rightarrow> bool) \<Rightarrow> error + dataset" where
  "get_one data passes =
     (case filter passes data of
        [] \<Rightarrow> Inl NoResults
      | ds # others \<Rightarrow> if others = [] then Inr ds else Inl MultipleResults)"

text \<open>The four filters of the call of \<^verbatim>\<open>ws.get_one\<close> at lines 1521 to 1527.\<close>

definition provides :: "exchange \<Rightarrow> dataset \<Rightarrow> bool" where
  "provides provider ds \<longleftrightarrow>
     ds_name ds = exc_name provider \<and> ds_location ds = exc_location provider \<and>
     ds_reference_product ds = exc_product provider \<and> ds_unit ds = exc_unit provider"

text \<open>\<^verbatim>\<open>ws.biosphere(provider_ds, ws.contains("name", "Carbon dioxide"))\<close>\<close>

definition carbon_dioxide_flows :: "dataset \<Rightarrow> exchange list" where
  "carbon_dioxide_flows ds =
     filter (\<lambda>f. exc_type f = ''biosphere'' \<and> str_in ''Carbon dioxide'' (exc_name f))
       (ds_exchanges ds)"

text \<open>The loop \<^verbatim>\<open>for provider in providers\<close>, with the accumulator \<^verbatim>\<open>co2_amount\<close>.\<close>

fun co2_of_providers :: "dataset list \<Rightarrow> exchange list \<Rightarrow> real \<Rightarrow> error + real" where
  "co2_of_providers data [] co2_amount = Inr co2_amount"
| "co2_of_providers data (provider # providers) co2_amount =
     bind_err (get_one data (provides provider)) (\<lambda>provider_ds.
     co2_of_providers data providers
       (co2_amount +
        sum_list (map (\<lambda>f. exc_amount f * exc_amount provider)
                   (carbon_dioxide_flows provider_ds))))"

definition electricity_providers :: "dataset \<Rightarrow> exchange list" where
  "electricity_providers plant =
     filter (\<lambda>e. exc_type e = ''technosphere'' \<and> exc_unit e = ''kilowatt hour'')
       (ds_exchanges plant)"

definition is_co2_capture :: "exchange \<Rightarrow> bool" where
  "is_co2_capture exc \<longleftrightarrow>
     exc_type exc = ''technosphere'' \<and> exc_unit exc = ''kilogram'' \<and>
     startswith (exc_name exc) ''CO2 capture''"

definition is_co2_emission :: "exchange \<Rightarrow> bool" where
  "is_co2_emission exc \<longleftrightarrow>
     exc_type exc = ''biosphere'' \<and> exc_unit exc = ''kilogram'' \<and>
     startswith (exc_name exc) ''Carbon dioxide''"

text \<open>The body of the loop \<^verbatim>\<open>for exc in plant["exchanges"]\<close>: two tests in a row.\<close>

definition set_captured :: "real \<Rightarrow> exchange \<Rightarrow> exchange" where
  "set_captured co2_amount exc =
     (let exc1 = (if is_co2_capture exc then exc\<lparr>exc_amount := co2_amount * 0.9\<rparr> else exc)
      in if is_co2_emission exc1 then exc1\<lparr>exc_amount := co2_amount * 0.9\<rparr> else exc1)"

text \<open>The body of the loop \<^verbatim>\<open>for plant in new_plants.values()\<close> (lines 1511 to 1549).\<close>

definition adjust_co2_capture :: "dataset list \<Rightarrow> dataset \<Rightarrow> error + dataset" where
  "adjust_co2_capture data plant =
     bind_err (co2_of_providers data (electricity_providers plant) 0) (\<lambda>co2_amount.
     Inr (plant\<lparr>ds_exchanges := map (set_captured co2_amount) (ds_exchanges plant)\<rparr>))"

definition techs_to_duplicate :: "string list" where
  "techs_to_duplicate =
     [''Biomass CHP CCS'', ''Biomass ST'', ''Biomass IGCC CCS'', ''Biomass IGCC'',
      ''Coal IGCC'', ''Coal PC CCS'', ''Coal CHP CCS'', ''Coal IGCC CCS'',
      ''Gas CHP CCS'', ''Gas CC CCS'', ''Oil CC CCS'']"

text \<open>
  \<^verbatim>\<open>list_datasets_to_duplicate\<close>: the names of the datasets of the database that the
  power plant map lists under one of the technologies, then six fixed names.
\<close>

definition list_datasets_to_duplicate :: "electricity \<Rightarrow> string list" where
  "list_datasets_to_duplicate self =
     map ds_name
       (filter (\<lambda>dataset. \<exists>k \<in> set techs_to_duplicate.
                  case powerplant_map self k of
                    None \<Rightarrow> False
                  | Some v \<Rightarrow> ds_name dataset \<in> set v)
          (database self))
     @ [''Wood chips, burned in power plant'', ''Natural gas, in ATR '', ''Hard coal, burned'',
        ''Lignite, burned'', ''CO2 storage/'', ''CO2 capture/'']"

text \<open>
  The loop over the datasets to duplicate: it returns \<^verbatim>\<open>all_plants\<close>. The test reads
  \<^verbatim>\<open>self.powerplant_map_rev.get(dataset["name"], "")\<close>.
\<close>

fun duplicate_plants :: "electricity \<Rightarrow> dataset list \<Rightarrow> error + dataset list" where
  "duplicate_plants self [] = Inr []"
| "duplicate_plants self (dataset # rest) =
     (let new_plants = fetch_proxies self (database self) (ds_name dataset)
                         (ds_reference_product dataset)
                         (powerplant_map_rev self (ds_name dataset))
      in
      bind_err (if str_in ''CHP CCS''
                     (case powerplant_map_rev self (ds_name dataset) of
                        None \<Rightarrow> [] | Some technology \<Rightarrow> technology)
                then map_err (adjust_co2_capture (database self)) new_plants
                else Inr new_plants) (\<lambda>new_plants.
      bind_err (duplicate_plants self rest) (\<lambda>all_plants.
      Inr (new_plants @ all_plants))))"

definition create_region_specific_power_plants :: "electricity \<Rightarrow> error + electricity" where
  "create_region_specific_power_plants self =
     bind_err (duplicate_plants self
                 (filter (\<lambda>dataset. \<exists>name \<in> set (list_datasets_to_duplicate self).
                            str_in name (ds_name dataset))
                    (database self))) (\<lambda>all_plants.
     Inr (self\<lparr>database := database self @ all_plants,
               created := created self @
                 map (\<lambda>dataset. (ds_name dataset, ds_reference_product dataset,
                                  ds_location dataset, ds_unit dataset)) all_plants\<rparr>))"

section \<open>Efficiency of power plants\<close>

text \<open>\<^verbatim>\<open>np.clip(x, lo, hi)\<close>\<close>

definition clip :: "real \<Rightarrow> real \<Rightarrow> real \<Rightarrow> real" where
  "clip x lo hi = min (max x lo) hi"

text \<open>
  \<^verbatim>\<open>wurst.change_exchanges_by_constant_factor(ds, value)\<close> of the wurst library, called
  without filters: it multiplies the amount of every technosphere exchange and of every
  biosphere exchange of the dataset by the value.
\<close>

definition change_exchanges_by_constant_factor :: "dataset \<Rightarrow> real \<Rightarrow> dataset" where
  "change_exchanges_by_constant_factor ds v =
     ds\<lparr>ds_exchanges :=
          map (\<lambda>exc. if exc_type exc = ''technosphere'' \<or> exc_type exc = ''biosphere''
                      then exc\<lparr>exc_amount := exc_amount exc * v\<rparr> else exc)
            (ds_exchanges ds)\<rparr>"

text \<open>
  The body of the loop over the datasets of a technology (lines 1616 to 1651). The value of
  \<^verbatim>\<open>IAM_eff_func\<close> is a Python float, so that \<^verbatim>\<open>1 / ...\<close> raises at zero.
  \<^verbatim>\<open>update_ecoinvent_efficiency_parameter\<close> writes the keys \<^verbatim>\<open>parameters\<close> and
  \<^verbatim>\<open>comment\<close> of the dataset, which the record does not hold.
\<close>

definition new_efficiency :: "real \<Rightarrow> real \<Rightarrow> error + real" where
  "new_efficiency ei_eff scaling_factor =
     bind_err (py_truediv (ei_eff * 1) scaling_factor) (\<lambda>x. Inr (clip x 0 1))"

definition update_dataset_efficiency ::
  "electricity \<Rightarrow> string \<Rightarrow> technology_mapping \<Rightarrow> dataset \<Rightarrow> error + dataset" where
  "update_dataset_efficiency self technology dict_technology dataset =
     (let ei_eff = current_eff_func dict_technology dataset (fuel_filters dict_technology) 3.6 in
      bind_err (py_truediv 1
                  (IAM_eff_func dict_technology technology
                     (ecoinvent_to_iam_location self (ds_location dataset))))
        (\<lambda>scaling_factor.
      bind_err (new_efficiency ei_eff scaling_factor) (\<lambda>new_eff.
      Inr (change_exchanges_by_constant_factor
             (dataset\<lparr>ds_log_parameters :=
                 AList.update ''new efficiency'' new_eff
                   (AList.update ''old efficiency'' ei_eff (ds_log_parameters dataset))\<rparr>)
             scaling_factor))))"

text \<open>
  The two loops of \<^verbatim>\<open>update_electricity_efficiency\<close>: the datasets are changed in
  place, one technology after the other.
\<close>

definition rescale_technology ::
  "electricity \<Rightarrow> string \<times> technology_mapping \<Rightarrow> error + electricity" where
  "rescale_technology self entry =
     (case entry of (technology, dict_technology) \<Rightarrow>
      bind_err (map_err (\<lambda>dataset.
                  if ds_unit dataset = ''kilowatt hour'' \<and>
                     (\<exists>n \<in> set (technology_filters dict_technology). str_in n (ds_name dataset))
                  then update_dataset_efficiency self technology dict_technology dataset
                  else Inr dataset) (database self)) (\<lambda>data.
      Inr (self\<lparr>database := data\<rparr>)))"

definition update_electricity_efficiency :: "electricity \<Rightarrow> error + electricity" where
  "update_electricity_efficiency self = fold_err rescale_technology self (technologies_map self)"

section \<open>Efficiency of photovoltaic panels\<close>

text \<open>
  \<^verbatim>\<open>float(re.findall(r"[-+]?\d*\.\d+|\d+", name)[0])\<close>: the first number of a name.
  At each position the first alternative is tried (an optional sign, digits, a dot and
  at least one digit), then the second (at least one digit); the quantifiers are greedy,
  and no shorter choice of the digits before the dot can be followed by the dot. No
  match at any position is the \<^verbatim>\<open>IndexError\<close> of \<^verbatim>\<open>[0]\<close>. The digits are the
  ASCII digits, and \<^verbatim>\<open>float\<close> of a match is its decimal value.
\<close>

definition is_digit :: "char \<Rightarrow> bool" where
  "is_digit c = (let n = (of_char c :: nat) in 48 \<le> n \<and> n \<le> 57)"

definition digits_value :: "string \<Rightarrow> nat" where
  "digits_value ds = foldl (\<lambda>a c. 10 * a + ((of_char c :: nat) - 48)) 0 ds"

definition match_decimal :: "string \<Rightarrow> real option" where
  "match_decimal s =
     (let (negative, unsigned) =
            (case s of
               [] \<Rightarrow> (False, s)
             | c # cs \<Rightarrow> if c = CHR ''-'' then (True, cs)
                         else if c = CHR ''+'' then (False, cs) else (False, s));
          whole = takeWhile is_digit unsigned
      in case dropWhile is_digit unsigned of
           [] \<Rightarrow> None
         | c # cs \<Rightarrow>
             (let fraction = takeWhile is_digit cs in
              if c = CHR ''.'' \<and> fraction \<noteq> []
              then Some ((if negative then - 1 else 1) *
                         (real (digits_value whole)
                          + real (digits_value fraction) / 10 ^ length fraction))
              else None))"

fun first_number :: "string \<Rightarrow> error + real" where
  "first_number [] = Inl IndexError"
| "first_number (c # cs) =
     (case match_decimal (c # cs) of
        Some x \<Rightarrow> Inr x
      | None \<Rightarrow>
          if is_digit c then Inr (real (digits_value (takeWhile is_digit (c # cs))))
          else first_number cs)"

text \<open>The rated power of an installation, in kilowatt (lines 1086 to 1089).\<close>

definition rated_power :: "string \<Rightarrow> error + real" where
  "rated_power name =
     bind_err (first_number name) (\<lambda>peak_power.
     Inr (if str_in ''mwp'' (lower name) then peak_power * 1000 else peak_power))"

definition possible_techs :: "string list" where
  "possible_techs = [''micro-Si'', ''single-Si'', ''multi-Si'', ''CIGS'', ''CIS'', ''CdTe'']"

text \<open>
  The projected efficiency of the module of an exchange, clipped to the range from 0.1
  to 0.27; there is none when the name of the exchange holds no technology.
\<close>

definition projected_efficiency :: "(string \<Rightarrow> real) \<Rightarrow> exchange \<Rightarrow> real option" where
  "projected_efficiency efficiency exc =
     (case filter (\<lambda>i. str_in (lower i) (lower (exc_name exc))) possible_techs of
        [] \<Rightarrow> None
      | pv_tech # _ \<Rightarrow> Some (clip (efficiency pv_tech) 0.1 0.27))"

text \<open>The filters of \<^verbatim>\<open>ws.technosphere\<close> at lines 1091 to 1097.\<close>

definition is_panel_surface :: "exchange \<Rightarrow> bool" where
  "is_panel_surface exc \<longleftrightarrow>
     exc_type exc = ''technosphere'' \<and> str_in ''photovoltaic'' (exc_name exc) \<and>
     exc_unit exc = ''square meter''"

text \<open>
  The loop over the exchanges of an installation. It returns the exchanges and the log
  parameters of the dataset. \<^verbatim>\<open>power / max_power\<close> divides Python floats.
\<close>

fun update_pv_exchanges ::
  "(string \<Rightarrow> real) \<Rightarrow> real \<Rightarrow> exchange list \<Rightarrow> (string \<times> real) list \<Rightarrow>
   error + exchange list \<times> (string \<times> real) list" where
  "update_pv_exchanges efficiency peak_power [] log_parameters = Inr ([], log_parameters)"
| "update_pv_exchanges efficiency peak_power (exc # rest) log_parameters =
     (if is_panel_surface exc then
        bind_err (py_truediv peak_power (exc_amount exc)) (\<lambda>current_eff.
        case projected_efficiency efficiency exc of
          None \<Rightarrow>
            bind_err (update_pv_exchanges efficiency peak_power rest log_parameters)
              (\<lambda>(rest', log'). Inr (exc # rest', log'))
        | Some new_eff \<Rightarrow>
            if new_eff > current_eff then
              bind_err (update_pv_exchanges efficiency peak_power rest
                          (AList.update ''new efficiency'' new_eff
                             (AList.update ''old efficiency'' current_eff log_parameters)))
                (\<lambda>(rest', log').
                   Inr (exc\<lparr>exc_amount := exc_amount exc * (current_eff / new_eff)\<rparr> # rest',
                        log'))
            else
              bind_err (update_pv_exchanges efficiency peak_power rest log_parameters)
                (\<lambda>(rest', log'). Inr (exc # rest', log')))
      else
        bind_err (update_pv_exchanges efficiency peak_power rest log_parameters)
          (\<lambda>(rest', log'). Inr (exc # rest', log')))"

text \<open>The body of the loop \<^verbatim>\<open>for dataset in datasets\<close> (lines 1085 to 1145).\<close>

definition update_pv_dataset :: "(string \<Rightarrow> real) \<Rightarrow> dataset \<Rightarrow> error + dataset" where
  "update_pv_dataset efficiency dataset =
     bind_err (rated_power (ds_name dataset)) (\<lambda>peak_power.
     bind_err (update_pv_exchanges efficiency peak_power (ds_exchanges dataset)
                 (ds_log_parameters dataset)) (\<lambda>(exchanges, log_parameters).
     Inr (dataset\<lparr>ds_exchanges := exchanges, ds_log_parameters := log_parameters\<rparr>)))"

text \<open>The filters of \<^verbatim>\<open>ws.get_many\<close> at lines 1072 to 1083.\<close>

definition is_pv_installation :: "dataset \<Rightarrow> bool" where
  "is_pv_installation dataset \<longleftrightarrow>
     str_in ''photovoltaic'' (ds_name dataset) \<and>
     (str_in ''installation'' (ds_name dataset) \<or> str_in ''construction'' (ds_name dataset)) \<and>
     \<not> (\<exists>v \<in> set [''market'', ''factory'', ''module'']. str_in v (ds_name dataset)) \<and>
     ds_unit dataset = ''unit''"

definition update_efficiency_of_solar_pv :: "electricity \<Rightarrow> error + electricity" where
  "update_efficiency_of_solar_pv self =
     bind_err (map_err (\<lambda>dataset.
                 if is_pv_installation dataset then update_pv_dataset (module_eff self) dataset
                 else Inr dataset) (database self)) (\<lambda>data.
     Inr (self\<lparr>database := data\<rparr>))"

text \<open>
  For the statements: the efficiency that replaces the current one on an exchange. It is the
  projected efficiency of the module, clipped, when the exchange is a panel surface and that
  efficiency is above the current one (rated power by surface); there is none otherwise.
\<close>

definition improved_efficiency :: "(string \<Rightarrow> real) \<Rightarrow> real \<Rightarrow> exchange \<Rightarrow> real option" where
  "improved_efficiency efficiency peak_power exc =
     (if is_panel_surface exc then
        (case projected_efficiency efficiency exc of
           None \<Rightarrow> None
         | Some new_eff \<Rightarrow> if new_eff > peak_power / exc_amount exc then Some new_eff else None)
      else None)"

section \<open>Example data\<close>

text \<open>
  Two hard coal plants of the region EUR with the indexed production volumes 80 and 20.
\<close>

definition coal_plant :: "string \<Rightarrow> dataset" where
  "coal_plant name =
     \<lparr>ds_name = name, ds_reference_product = ''electricity, high voltage'',
      ds_location = ''EUR'', ds_unit = ''kilowatt hour'', ds_database = ''ecoinvent'',
      ds_exchanges = [], ds_log_parameters = []\<rparr>"

definition example_index :: production_index where
  "example_index =
     [(''coal plant A'', ''EUR'') \<mapsto> 80, (''coal plant B'', ''EUR'') \<mapsto> 20]"

text \<open>
  An exchange is an input from a dataset when it is a technosphere exchange that names the
  dataset, its reference product, its location and its unit: this is how wurst links an
  exchange to its provider.
\<close>

definition input_from :: "exchange \<Rightarrow> dataset \<Rightarrow> bool" where
  "input_from exc ds \<longleftrightarrow>
     exc_type exc = ''technosphere'' \<and> exc_name exc = ds_name ds \<and>
     exc_product exc = ds_reference_product ds \<and> exc_location exc = ds_location ds \<and>
     exc_unit exc = ds_unit ds"

text \<open>
  An instance of the transformation object for the scenarios of the specification: the
  region EUR, the two coal plants, a gas plant, a hydro plant and a residential
  photovoltaic plant, and the losses 0.05 (distribution) and 0.02 (transformation) of the
  medium voltage tier. The collaborators are simple ones: suppliers are matched on their
  name and location, and every name asked of \<open>select_multiple_suppliers\<close> is supplied
  once, with share 1, from the location GLO.
\<close>

definition power_plant :: "string \<Rightarrow> string \<Rightarrow> dataset" where
  "power_plant name product =
     \<lparr>ds_name = name, ds_reference_product = product,
      ds_location = ''EUR'', ds_unit = ''kilowatt hour'', ds_database = ''ecoinvent'',
      ds_exchanges = [], ds_log_parameters = []\<rparr>"

definition example_database :: "dataset list" where
  "example_database =
     [coal_plant ''coal plant A'', coal_plant ''coal plant B'',
      power_plant ''gas plant'' ''electricity, high voltage'',
      power_plant ''hydro plant'' ''electricity, high voltage'',
      power_plant ''rooftop plant'' ''electricity, low voltage'']"

definition example_losses :: network_losses where
  "example_losses =
     \<lparr>high = \<lparr>transf_loss = 0.03, distr_loss = 0\<rparr>,
      medium = \<lparr>transf_loss = 0.02, distr_loss = 0.05\<rparr>,
      low = \<lparr>transf_loss = 0.04, distr_loss = 0.1\<rparr>\<rparr>"

definition example_self :: "string \<Rightarrow> real list \<Rightarrow> electricity" where
  "example_self mode shares =
     \<lparr>database = example_database,
      regions = [''EUR''],
      system_model = mode,
      powerplant_map =
        [''coal'' \<mapsto> [''coal plant A'', ''coal plant B''], ''gas'' \<mapsto> [''gas plant''],
         ''hydro'' \<mapsto> [''hydro plant''], ''Solar PV Residential'' \<mapsto> [''rooftop plant'']],
      powerplant_map_rev = Map.empty,
      production_per_tech = example_index,
      network_loss = [''EUR'' \<mapsto> example_losses],
      created = [],
      variables = [''coal'', ''gas'', ''hydro'', ''Solar PV Residential''],
      markets_sel = (\<lambda>region. shares),
      markets_mean = (\<lambda>region period. shares),
      iam_to_ecoinvent_location = (\<lambda>region. [''DE'', ''FR'']),
      get_suppliers_of_a_region =
        (\<lambda>database locations names reference_prod unit.
           filter (\<lambda>ds. ds_name ds \<in> set names \<and> ds_location ds \<in> set locations) database),
      select_multiple_suppliers =
        (\<lambda>database possible_names dataset_location.
           map (\<lambda>name. ((name, ''GLO'', name, ''unit''), 1)) possible_names),
      fetch_proxies = (\<lambda>database name ref_prod production_variable. []),
      ecoinvent_to_iam_location = (\<lambda>location. ''EUR''),
      technologies_map = [],
      module_eff = (\<lambda>technology. 0.2)\<rparr>"


text \<open>
  The instance without the residential photovoltaic plant: no dataset of the database
  matches the technology \<open>Solar PV Residential\<close> at any location of the fallback chain.
\<close>

definition example_without_rooftop :: "string \<Rightarrow> real list \<Rightarrow> electricity" where
  "example_without_rooftop mode shares =
     (example_self mode shares)
       \<lparr>database := filter (\<lambda>ds. ds_name ds \<noteq> ''rooftop plant'') example_database\<rparr>"

text \<open>The instance without the gas plant, for the high voltage builder.\<close>

definition example_without_gas :: "string \<Rightarrow> real list \<Rightarrow> electricity" where
  "example_without_gas mode shares =
     (example_self mode shares)
       \<lparr>database := filter (\<lambda>ds. ds_name ds \<noteq> ''gas plant'') example_database\<rparr>"

text \<open>
  A photovoltaic installation of 3 kWp with one panel exchange of a given surface, and a
  projected module efficiency of 0.2 for every technology.
\<close>

definition pv_installation :: "real \<Rightarrow> dataset" where
  "pv_installation surface =
     \<lparr>ds_name = ''photovoltaic slanted-roof installation, 3kWp, single-Si, panel, mounted'',
      ds_reference_product = ''photovoltaic slanted-roof installation, 3kWp'',
      ds_location = ''CH'', ds_unit = ''unit'', ds_database = ''ecoinvent'',
      ds_exchanges =
        [\<lparr>exc_name = ''photovoltaic panel production, single-Si wafer'',
          exc_product = ''photovoltaic panel, single-Si wafer'', exc_location = ''RER'',
          exc_unit = ''square meter'', exc_type = ''technosphere'', exc_amount = surface\<rparr>],
      ds_log_parameters = []\<rparr>"

definition flat_module_eff :: "string \<Rightarrow> real" where
  "flat_module_eff technology = 0.2"



text \<open>
  A coal plant that burns a given amount of hard coal per kilowatt hour, and a mapping of
  its technology with a given current efficiency and a given value of
  \<^verbatim>\<open>IAM_eff_func\<close>.
\<close>

definition fuelled_plant :: "real \<Rightarrow> dataset" where
  "fuelled_plant fuel =
     \<lparr>ds_name = ''electricity production, hard coal'',
      ds_reference_product = ''electricity, high voltage'',
      ds_location = ''DE'', ds_unit = ''kilowatt hour'', ds_database = ''ecoinvent'',
      ds_exchanges =
        [\<lparr>exc_name = ''electricity production, hard coal'',
          exc_product = ''electricity, high voltage'', exc_location = ''DE'',
          exc_unit = ''kilowatt hour'', exc_type = ''production'', exc_amount = 1\<rparr>,
         \<lparr>exc_name = ''market for hard coal'', exc_product = ''hard coal'',
          exc_location = ''Europe, without Russia and Turkey'',
          exc_unit = ''kilogram'', exc_type = ''technosphere'', exc_amount = fuel\<rparr>],
      ds_log_parameters = []\<rparr>"

definition example_mapping :: "real \<Rightarrow> real \<Rightarrow> technology_mapping" where
  "example_mapping current change =
     \<lparr>technology_filters = [''electricity production, hard coal''],
      fuel_filters = [''market for hard coal''],
      current_eff_func = (\<lambda>dataset filters energy_content. current),
      IAM_eff_func = (\<lambda>variable location. change)\<rparr>"

text \<open>
  The object after a method appended datasets to the database and entries to the ledger of
  created datasets; every other attribute and every collaborator is the same.
\<close>

definition grown_from :: "electricity \<Rightarrow> electricity \<Rightarrow> bool" where
  "grown_from s self \<longleftrightarrow>
     (\<exists>datasets entries.
        s = self\<lparr>database := database self @ datasets, created := created self @ entries\<rparr>)"

text \<open>A row of the loss table without a negative entry.\<close>

definition nonneg_row :: "loss_row \<Rightarrow> bool" where
  "nonneg_row row \<longleftrightarrow>
     0 \<le> transformation_loss_high_voltage row \<and> 0 \<le> transformation_loss_medium_voltage row \<and>
     0 \<le> transmission_loss_to_medium_voltage row \<and> 0 \<le> transformation_loss_low_voltage row \<and>
     0 \<le> transmission_loss_to_low_voltage row \<and> 0 \<le> production_volume row"


section \<open>Properties: sequencing\<close>

lemma bind_err_simps [simp]:
  "bind_err (Inl e) f = Inl e"
  "bind_err (Inr x) f = f x"
  by (simp_all add: bind_err_def)

lemma bind_err_Inr_iff:
  "bind_err m f = Inr y \<longleftrightarrow> (\<exists>x. m = Inr x \<and> f x = Inr y)"
  by (cases m) simp_all

lemma map_err_total:
  assumes "\<And>x. x \<in> set xs \<Longrightarrow> f x = Inr (g x)"
  shows "map_err f xs = Inr (map g xs)"
  using assms by (induction xs) simp_all

section \<open>Properties: loss model\<close>

lemma accumulate_losses_sums:
  "accumulate_losses losses transf distr locs (c, a, b) =
     (c + (\<Sum>loc\<leftarrow>locs. production_volume (losses_get losses loc)),
      a + (\<Sum>loc\<leftarrow>locs. transf (losses_get losses loc) * production_volume (losses_get losses loc)),
      b + (\<Sum>loc\<leftarrow>locs. distr (losses_get losses loc) * production_volume (losses_get losses loc)))"
  by (induction locs arbitrary: c a b) (simp_all add: Let_def add.assoc)

lemma absent_locations_no_volume:
  assumes "\<forall>loc \<in> set locs. losses loc = None"
  shows "(\<Sum>loc\<leftarrow>locs. production_volume (losses_get losses loc)) = 0"
  using assms by (induction locs) (simp_all add: losses_get_def zero_loss_row_def)

text \<open>
  Whenever no location of the region is in the loss table, the cumulated production
  volume is \<open>0.0\<close> and the first \<^verbatim>\<open>transf_loss /= cumul_prod\<close> raises.
\<close>

lemma losses_of_absent_locations:
  assumes "\<forall>loc \<in> set locs. losses loc = None"
  shows "get_production_weighted_losses losses locs = Inl ZeroDivisionError"
  using absent_locations_no_volume [OF assms]
  by (simp add: get_production_weighted_losses_def accumulate_losses_sums py_truediv_def)

text \<open>
  When the function returns and no entry of the loss table is negative, no loss that it
  returns is negative.
\<close>

lemma weighted_sum_nonneg:
  assumes "\<forall>loc \<in> set locs. 0 \<le> col (losses_get losses loc) \<and>
             0 \<le> production_volume (losses_get losses loc)"
  shows "0 \<le> (\<Sum>loc\<leftarrow>locs. col (losses_get losses loc) * production_volume (losses_get losses loc))"
    and "0 \<le> (\<Sum>loc\<leftarrow>locs. production_volume (losses_get losses loc))"
  using assms by (induction locs) simp_all

lemma nonneg_losses_get:
  assumes "\<forall>row \<in> ran losses. nonneg_row row"
  shows "nonneg_row (losses_get losses loc)"
proof (cases "losses loc")
  case None
  then show ?thesis by (simp add: losses_get_def zero_loss_row_def nonneg_row_def)
next
  case (Some row)
  then have "row \<in> ran losses" by (auto simp: ran_def)
  with assms Some show ?thesis by (simp add: losses_get_def)
qed

lemma losses_nonnegative:
  assumes table: "\<forall>row \<in> ran losses. nonneg_row row"
      and result: "get_production_weighted_losses losses locs = Inr l"
  shows "0 \<le> transf_loss (high l) \<and> 0 \<le> distr_loss (high l) \<and>
         0 \<le> transf_loss (medium l) \<and> 0 \<le> distr_loss (medium l) \<and>
         0 \<le> transf_loss (low l) \<and> 0 \<le> distr_loss (low l)"
proof -
  have row: "\<And>loc. nonneg_row (losses_get losses loc)"
    using nonneg_losses_get [OF table] .
  define vol where "vol = (\<Sum>loc\<leftarrow>locs. production_volume (losses_get losses loc))"
  have vol: "0 \<le> vol"
    unfolding vol_def using row by (intro weighted_sum_nonneg(2) [where col = "\<lambda>_. 0"]) (simp add: nonneg_row_def)
  have q: "0 \<le> (\<Sum>loc\<leftarrow>locs. c (losses_get losses loc) * production_volume (losses_get losses loc)) / vol"
    if c: "\<And>r. nonneg_row r \<Longrightarrow> 0 \<le> c r" for c
  proof -
    have "0 \<le> (\<Sum>loc\<leftarrow>locs. c (losses_get losses loc) * production_volume (losses_get losses loc))"
      using row c by (intro weighted_sum_nonneg(1)) (simp add: nonneg_row_def)
    then show ?thesis using vol by simp
  qed
  from result show ?thesis
    unfolding get_production_weighted_losses_def accumulate_losses_sums vol_def [symmetric]
    using q [of transformation_loss_high_voltage] q [of transformation_loss_medium_voltage]
      q [of transmission_loss_to_medium_voltage] q [of transformation_loss_low_voltage]
      q [of transmission_loss_to_low_voltage]
    by (auto simp: py_truediv_def nonneg_row_def split: if_splits)
qed

text \<open>
  C4: for a region all of whose locations are absent from the loss table the claim has
  the loss model return the zero-loss default. At the empty table and the single location
  \<open>XX\<close> the code raises \<^verbatim>\<open>ZeroDivisionError\<close> instead of returning.
\<close>

theorem losses_absent_region_raises:
  "get_production_weighted_losses Map.empty [''XX''] = Inl ZeroDivisionError"
  by (simp add: get_production_weighted_losses_def py_truediv_def losses_get_def zero_loss_row_def)

section \<open>Properties: allocation engine\<close>

lemma sum_production_sum:
  "sum_production index suppliers t =
     t + (\<Sum>s\<leftarrow>suppliers. indexed_volume index s)"
  by (induction suppliers arbitrary: t) (simp_all add: add.assoc)

text \<open>
  C2: for a non-empty supplier list, the share of a supplier is its indexed volume
  divided by the summed indexed volume of the list when that sum is not zero, and
  one divided by the number of suppliers when it is zero; the function returns and
  raises no error.
\<close>

theorem production_weighted_share_formula:
  assumes "suppliers \<noteq> []"
  shows "get_production_weighted_share index supplier suppliers =
     Inr (if (\<Sum>s\<leftarrow>suppliers. indexed_volume index s) \<noteq> 0
          then indexed_volume index supplier
               / (\<Sum>s\<leftarrow>suppliers. indexed_volume index s)
          else 1 / real (length suppliers))"
  using assms
  by (simp add: get_production_weighted_share_def sum_production_sum py_truediv_def Let_def)

theorem production_weighted_share_formula_witness:
  "[coal_plant ''coal plant A'', coal_plant ''coal plant B''] \<noteq> [] \<and>
   get_production_weighted_share example_index (coal_plant ''coal plant A'')
     [coal_plant ''coal plant A'', coal_plant ''coal plant B''] = Inr (4 / 5) \<and>
   get_production_weighted_share Map.empty (coal_plant ''coal plant A'')
     [coal_plant ''coal plant A'', coal_plant ''coal plant B''] = Inr (1 / 2)"
  using production_weighted_share_formula
          [of "[coal_plant ''coal plant A'', coal_plant ''coal plant B'']" example_index
              "coal_plant ''coal plant A''"]
        production_weighted_share_formula
          [of "[coal_plant ''coal plant A'', coal_plant ''coal plant B'']" Map.empty
              "coal_plant ''coal plant A''"]
  by (simp add: indexed_volume_def example_index_def coal_plant_def)

lemma sum_list_snd_divide:
  "(\<Sum>p\<leftarrow>xs. snd p / c) = (\<Sum>p\<leftarrow>xs. snd p) / (c::real)"
  by (induction xs) (simp_all add: add_divide_distrib)

lemma sum_list_above_pos:
  assumes "xs \<noteq> []" and "\<forall>p \<in> set xs. snd p > (0.001::real)"
  shows "0 < (\<Sum>p\<leftarrow>xs. snd p)"
  using assms
proof (induction xs)
  case Nil
  then show ?case by simp
next
  case (Cons p xs)
  have "0 < snd p" using Cons.prems(2) by simp
  moreover have "0 \<le> (\<Sum>p\<leftarrow>xs. snd p)"
  proof (cases "xs = []")
    case True
    then show ?thesis by simp
  next
    case False
    then show ?thesis using Cons.IH Cons.prems(2) by simp
  qed
  ultimately show ?case by simp
qed

text \<open>The division by \<^verbatim>\<open>total_share\<close> never raises: the shares it sums are above 0.001.\<close>

lemma renormalise_above:
  fixes above :: "('a \<times> real) list"
  assumes "\<forall>p \<in> set above. snd p > 0.001"
  shows "map_err (\<lambda>supplier. bind_err (py_truediv (snd supplier) (sum_list (map snd above)))
            (\<lambda>share. Inr (fst supplier, share))) above
         = Inr (map (\<lambda>supplier. (fst supplier, snd supplier / sum_list (map snd above))) above)"
proof (cases "above = []")
  case True
  then show ?thesis by simp
next
  case False
  then have "0 < (\<Sum>p\<leftarrow>above. snd p)" using assms by (rule sum_list_above_pos)
  then show ?thesis
    by (intro map_err_total) (simp add: py_truediv_def)
qed

lemma production_weighted_share_returns:
  assumes "suppliers \<noteq> []"
  shows "\<exists>share. get_production_weighted_share index supplier suppliers = Inr share"
  using assms
  by (simp add: get_production_weighted_share_def sum_production_sum py_truediv_def Let_def)

lemma keep_with_volume_returns:
  assumes "suppliers \<noteq> []"
  shows "\<exists>kept. keep_with_volume index suppliers rest = Inr kept \<and> set kept \<subseteq> set rest"
proof (induction rest)
  case Nil
  then show ?case by simp
next
  case (Cons s rest)
  then obtain kept where k: "keep_with_volume index suppliers rest = Inr kept"
      "set kept \<subseteq> set rest" by blast
  obtain share where "get_production_weighted_share index s suppliers = Inr share"
    using production_weighted_share_returns [OF assms] by blast
  with k show ?case by auto
qed

lemma check_for_production_volume_returns:
  "\<exists>kept. check_for_production_volume index suppliers = Inr kept \<and> set kept \<subseteq> set suppliers"
proof (cases "suppliers = []")
  case True
  then show ?thesis by (simp add: check_for_production_volume_def)
next
  case False
  then show ?thesis
    using keep_with_volume_returns [OF False, of index suppliers]
    by (auto simp: check_for_production_volume_def)
qed

lemma shares_of_suppliers_return:
  "\<exists>with_share.
     map_err (\<lambda>supplier. bind_err (get_production_weighted_share index supplier suppliers)
                (\<lambda>share. Inr (supplier, share))) suppliers = Inr with_share \<and>
     map fst with_share = suppliers"
proof (cases "suppliers = []")
  case True
  then show ?thesis by simp
next
  case False
  obtain sh where sh: "\<And>supplier. get_production_weighted_share index supplier suppliers
                         = Inr (sh supplier)"
    using production_weighted_share_returns [OF False, of index] by metis
  have "map_err (\<lambda>supplier. bind_err (get_production_weighted_share index supplier suppliers)
                   (\<lambda>share. Inr (supplier, share))) suppliers
        = Inr (map (\<lambda>supplier. (supplier, sh supplier)) suppliers)"
    by (rule map_err_total) (simp add: sh)
  then show ?thesis by (auto simp: comp_def)
qed

text \<open>
  The allocation block always returns; it keeps suppliers that were resolved, and its
  result is empty or has shares that sum to 1.
\<close>

lemma allocate_suppliers_normalised:
  "\<exists>allocation. allocate_suppliers index resolved = Inr allocation \<and>
      set (map fst allocation) \<subseteq> set resolved \<and>
      (allocation = [] \<or> sum_list (map snd allocation) = 1)"
proof -
  obtain suppliers where s: "check_for_production_volume index resolved = Inr suppliers"
    and sub: "set suppliers \<subseteq> set resolved"
    using check_for_production_volume_returns by blast
  obtain with_share where
    w: "map_err (\<lambda>supplier. bind_err (get_production_weighted_share index supplier suppliers)
                   (\<lambda>share. Inr (supplier, share))) suppliers = Inr with_share"
    and f: "map fst with_share = suppliers"
    using shares_of_suppliers_return by blast
  define above where "above = filter (\<lambda>supplier. snd supplier > 0.001) with_share"
  define total_share where "total_share = sum_list (map snd above)"
  have ab: "\<forall>p \<in> set above. snd p > 0.001" by (simp add: above_def)
  have r: "allocate_suppliers index resolved =
       Inr (map (\<lambda>supplier. (fst supplier, snd supplier / total_share)) above)"
    using renormalise_above [OF ab]
    by (simp only: allocate_suppliers_def s w bind_err_simps Let_def above_def total_share_def)
  have "fst ` set above \<subseteq> set (map fst with_share)" by (auto simp: above_def)
  with f sub have inc: "set (map fst (map (\<lambda>supplier. (fst supplier, snd supplier / total_share))
                     above)) \<subseteq> set resolved"
    by (auto simp: comp_def)
  show ?thesis
  proof (cases "above = []")
    case True
    with r show ?thesis by simp
  next
    case False
    then have "0 < total_share"
      unfolding total_share_def using ab by (rule sum_list_above_pos)
    then have "sum_list (map snd (map (\<lambda>supplier. (fst supplier, snd supplier / total_share))
                 above)) = 1"
      by (simp add: comp_def sum_list_snd_divide total_share_def)
    with r inc show ?thesis by blast
  qed
qed

lemma suppliers_of_technology_normalised:
  assumes "suppliers_of_technology self region names = Inr allocation"
  shows "allocation = [] \<or> sum_list (map snd allocation) = 1"
proof -
  from assms obtain resolved where
    "allocate_suppliers (production_per_tech self) resolved = Inr allocation"
    by (auto simp: suppliers_of_technology_def bind_err_Inr_iff)
  with allocate_suppliers_normalised [of "production_per_tech self" resolved]
  show ?thesis by auto
qed

lemma hv_tech_suppliers_normalised:
  assumes "hv_tech_suppliers self region eco tech_suppliers0 = Inr tech_suppliers"
    and "\<forall>technology. tech_suppliers0 technology = [] \<or>
           sum_list (map snd (tech_suppliers0 technology)) = 1"
  shows "tech_suppliers technology = [] \<or> sum_list (map snd (tech_suppliers technology)) = 1"
  using assms
proof (induction eco arbitrary: tech_suppliers0)
  case Nil
  then show ?case by simp
next
  case (Cons entry eco)
  obtain t names where entry: "entry = (t, names)" by (cases entry)
  show ?case
  proof (cases "suppliers_of_technology self region names")
    case (Inl e)
    with Cons.prems(1) entry
    have "hv_tech_suppliers self region eco tech_suppliers0 = Inr tech_suppliers"
      by (auto split: if_splits)
    from Cons.IH [OF this Cons.prems(2)] show ?thesis .
  next
    case (Inr allocation)
    with Cons.prems(1) entry
    have r: "hv_tech_suppliers self region eco (tech_suppliers0(t := allocation))
               = Inr tech_suppliers" by simp
    have "\<forall>technology. (tech_suppliers0(t := allocation)) technology = [] \<or>
           sum_list (map snd ((tech_suppliers0(t := allocation)) technology)) = 1"
      using Cons.prems(2) suppliers_of_technology_normalised [OF Inr] by auto
    from Cons.IH [OF r this] show ?thesis .
  qed
qed

lemma lv_tech_suppliers_normalised:
  assumes "lv_tech_suppliers self region eco tech_suppliers0 = Inr tech_suppliers"
    and "\<forall>technology. tech_suppliers0 technology = [] \<or>
           sum_list (map snd (tech_suppliers0 technology)) = 1"
  shows "tech_suppliers technology = [] \<or> sum_list (map snd (tech_suppliers technology)) = 1"
  using assms
proof (induction eco arbitrary: tech_suppliers0)
  case Nil
  then show ?case by simp
next
  case (Cons entry eco)
  obtain t names where entry: "entry = (t, names)" by (cases entry)
  from Cons.prems(1) entry obtain allocation where
    a: "suppliers_of_technology self region names = Inr allocation"
    and r: "lv_tech_suppliers self region eco (tech_suppliers0(t := allocation))
              = Inr tech_suppliers"
    by (auto simp: bind_err_Inr_iff)
  have "\<forall>technology. (tech_suppliers0(t := allocation)) technology = [] \<or>
         sum_list (map snd ((tech_suppliers0(t := allocation)) technology)) = 1"
    using Cons.prems(2) suppliers_of_technology_normalised [OF a] by auto
  from Cons.IH [OF r this] show ?thesis .
qed

text \<open>
  C3: the allocation of a technology is computed without an error, and after the
  suppliers below the 0.1 percent threshold are dropped and the other shares are divided
  by their sum, the shares of the allocation sum to 1, or the allocation is empty. This
  holds for the list that \<^verbatim>\<open>tech_suppliers\<close> holds for any technology, in the high
  voltage builder and in the low voltage builder, for every region (the allocation does
  not depend on the period).
\<close>

theorem allocation_shares_sum_to_one:
  "(\<exists>allocation. allocate_suppliers index resolved = Inr allocation \<and>
      (allocation = [] \<or> sum_list (map snd allocation) = 1)) \<and>
   (\<forall>self region eco tech_suppliers technology.
      hv_tech_suppliers self region eco (\<lambda>_. []) = Inr tech_suppliers \<or>
      lv_tech_suppliers self region eco (\<lambda>_. []) = Inr tech_suppliers \<longrightarrow>
      tech_suppliers technology = [] \<or> sum_list (map snd (tech_suppliers technology)) = 1)"
proof -
  have "tech_suppliers technology = [] \<or> sum_list (map snd (tech_suppliers technology)) = 1"
    if "hv_tech_suppliers self region eco (\<lambda>_. []) = Inr tech_suppliers \<or>
        lv_tech_suppliers self region eco (\<lambda>_. []) = Inr tech_suppliers"
    for self region eco tech_suppliers technology
    using that hv_tech_suppliers_normalised [of self region eco "\<lambda>_. []" tech_suppliers]
      lv_tech_suppliers_normalised [of self region eco "\<lambda>_. []" tech_suppliers]
    by auto
  with allocate_suppliers_normalised [of index resolved] show ?thesis by blast
qed

theorem allocation_shares_sum_to_one_witness:
  "allocate_suppliers example_index [coal_plant ''coal plant A'', coal_plant ''coal plant B''] =
     Inr [(coal_plant ''coal plant A'', 4 / 5), (coal_plant ''coal plant B'', 1 / 5)] \<and>
   (\<exists>tech_suppliers.
      hv_tech_suppliers (example_self ''cutoff'' [0.3, 0.2, 0.5, 0]) ''EUR''
        [(''coal'', [''coal plant A'', ''coal plant B'']), (''gas'', [''gas plant''])] (\<lambda>_. [])
        = Inr tech_suppliers \<and>
      tech_suppliers ''coal'' =
        [(coal_plant ''coal plant A'', 4 / 5), (coal_plant ''coal plant B'', 1 / 5)] \<and>
      sum_list (map snd (tech_suppliers ''coal'')) = 1)"
proof -
  let ?self = "example_self ''cutoff'' [0.3, 0.2, 0.5, 0]"
  let ?eco = "[(''coal'', [''coal plant A'', ''coal plant B'']), (''gas'', [''gas plant''])]"
  have run: "allocate_suppliers example_index
               [coal_plant ''coal plant A'', coal_plant ''coal plant B''] =
             Inr [(coal_plant ''coal plant A'', 4 / 5), (coal_plant ''coal plant B'', 1 / 5)]"
    by code_simp
  have "case hv_tech_suppliers ?self ''EUR'' ?eco (\<lambda>_. []) of
          Inl _ \<Rightarrow> False
        | Inr tech_suppliers \<Rightarrow>
            tech_suppliers ''coal'' =
              [(coal_plant ''coal plant A'', 4 / 5), (coal_plant ''coal plant B'', 1 / 5)]"
    by code_simp
  then obtain tech_suppliers where
    ts: "hv_tech_suppliers ?self ''EUR'' ?eco (\<lambda>_. []) = Inr tech_suppliers"
    and coal: "tech_suppliers ''coal'' =
                 [(coal_plant ''coal plant A'', 4 / 5), (coal_plant ''coal plant B'', 1 / 5)]"
    by (auto split: sum.splits)
  from allocation_shares_sum_to_one
         [of example_index "[coal_plant ''coal plant A'', coal_plant ''coal plant B'']"] ts
  have "tech_suppliers ''coal'' = [] \<or> sum_list (map snd (tech_suppliers ''coal'')) = 1"
    by blast
  with coal have "sum_list (map snd (tech_suppliers ''coal'')) = 1" by simp
  with run ts coal show ?thesis by blast
qed

section \<open>Properties: medium voltage markets\<close>

lemma filter_supplier_exchanges_product:
  assumes "\<forall>(key, share) \<in> set suppliers. fst (snd (snd key)) \<noteq> product"
  shows "filter (\<lambda>e. exc_type e = ''technosphere'' \<and> exc_product e = product)
           (supplier_exchanges c suppliers) = []"
  using assms by (induction suppliers) (auto simp: supplier_exchanges_def)

lemma hv_dataset_header:
  assumes "hv_dataset self region t_loss tech_suppliers period = Inr ds"
  shows "ds_name ds = ''market group for electricity, high voltage'' @ period_suffix period"
    and "ds_reference_product ds = ''electricity, high voltage''"
    and "ds_location ds = region" and "ds_unit ds = ''kilowatt hour''"
  using assms
  by (auto simp: hv_dataset_def Let_def bind_err_Inr_iff)

lemma mv_dataset_header:
  assumes "mv_dataset self region losses period = Inr ds"
  shows "ds_name ds = ''market group for electricity, medium voltage'' @ period_suffix period"
    and "ds_reference_product ds = ''electricity, medium voltage''"
    and "ds_location ds = region" and "ds_unit ds = ''kilowatt hour''"
  using assms
  by (auto simp: mv_dataset_def Let_def bind_err_Inr_iff)

text \<open>
  C7: the medium voltage market of a region and a period holds the input from the high
  voltage market of the same region and period, of amount 1 plus the medium voltage
  distribution loss, and a self-loop of amount the medium voltage transformation loss.
  The input from the high voltage market is the only technosphere exchange of the
  product \<open>electricity, high voltage\<close>, as long as the suppliers of sulfur hexafluoride
  and of the transmission network are not of that product. With the losses 0.05 and 0.02
  the amounts are 1.05 and 0.02.
\<close>

theorem medium_voltage_market_inputs:
  assumes built: "mv_dataset self region losses period = Inr ds"
  shows "let hv_input =
               \<lparr>exc_name = ''market group for electricity, high voltage'' @ period_suffix period,
                exc_product = ''electricity, high voltage'', exc_location = region,
                exc_unit = ''kilowatt hour'', exc_type = ''technosphere'',
                exc_amount = 1 + distr_loss losses\<rparr>;
             self_loop =
               \<lparr>exc_name = ''market group for electricity, medium voltage'' @ period_suffix period,
                exc_product = ''electricity, medium voltage'', exc_location = region,
                exc_unit = ''kilowatt hour'', exc_type = ''technosphere'',
                exc_amount = transf_loss losses\<rparr>
         in hv_input \<in> set (ds_exchanges ds) \<and>
            (\<forall>self' t_loss tech_suppliers hv.
               hv_dataset self' region t_loss tech_suppliers period = Inr hv \<longrightarrow>
               input_from hv_input hv) \<and>
            self_loop \<in> set (ds_exchanges ds) \<and> input_from self_loop ds \<and>
            ((\<forall>(key, share) \<in>
                set (select_multiple_suppliers self (database self)
                       [''market for sulfur hexafluoride, liquid''] region) \<union>
                set (select_multiple_suppliers self (database self)
                       [''transmission network construction, electricity, medium voltage'']
                       region).
                fst (snd (snd key)) \<noteq> ''electricity, high voltage'') \<longrightarrow>
             filter (\<lambda>e. exc_type e = ''technosphere'' \<and>
                         exc_product e = ''electricity, high voltage'')
               (ds_exchanges ds) = [hv_input])"
proof -
  define hv_input where "hv_input =
     \<lparr>exc_name = ''market group for electricity, high voltage'' @ period_suffix period,
      exc_product = ''electricity, high voltage'', exc_location = region,
      exc_unit = ''kilowatt hour'', exc_type = ''technosphere'',
      exc_amount = 1 + distr_loss losses\<rparr>"
  define self_loop where "self_loop =
     \<lparr>exc_name = ''market group for electricity, medium voltage'' @ period_suffix period,
      exc_product = ''electricity, medium voltage'', exc_location = region,
      exc_unit = ''kilowatt hour'', exc_type = ''technosphere'',
      exc_amount = transf_loss losses\<rparr>"
  obtain label where ex: "ds_exchanges ds =
      [\<lparr>exc_name = ''market group for electricity, medium voltage'' @ period_suffix period,
              exc_product = ''electricity, medium voltage'', exc_location = region,
              exc_unit = ''kilowatt hour'', exc_type = ''production'', exc_amount = 1\<rparr>,
       hv_input, self_loop]
            @ supplier_exchanges (5.4 / 10 ^ 8)
                (select_multiple_suppliers self (database self)
                   [''market for sulfur hexafluoride, liquid''] region)
            @ [sf6_emission (5.4 / 10 ^ 8)]
            @ supplier_exchanges (1.8628 / 10 ^ 8)
                (select_multiple_suppliers self (database self)
                   [''transmission network construction, electricity, medium voltage''] region)"
    using built
    by (auto simp: mv_dataset_def bind_err_Inr_iff hv_input_def self_loop_def period_suffix_def)
  have 1: "hv_input \<in> set (ds_exchanges ds)" "self_loop \<in> set (ds_exchanges ds)"
    by (simp_all add: ex)
  have 3: "input_from hv_input hv" if "hv_dataset self' region t_loss tech_suppliers period = Inr hv"
    for self' t_loss tech_suppliers hv
    using hv_dataset_header [OF that] by (simp add: input_from_def hv_input_def)
  have 4: "input_from self_loop ds"
    using mv_dataset_header [OF built] by (simp add: input_from_def self_loop_def)
  have 5: "filter (\<lambda>e. exc_type e = ''technosphere'' \<and> exc_product e = ''electricity, high voltage'')
              (ds_exchanges ds) = [hv_input]"
    if "\<forall>(key, share) \<in>
                set (select_multiple_suppliers self (database self)
                       [''market for sulfur hexafluoride, liquid''] region) \<union>
                set (select_multiple_suppliers self (database self)
                       [''transmission network construction, electricity, medium voltage''] region).
                fst (snd (snd key)) \<noteq> ''electricity, high voltage''"
  proof -
    have a: "filter (\<lambda>e. exc_type e = ''technosphere'' \<and> exc_product e = ''electricity, high voltage'')
           (supplier_exchanges c (select_multiple_suppliers self (database self)
                       [''market for sulfur hexafluoride, liquid''] region)) = []" for c
      using that by (intro filter_supplier_exchanges_product) auto
    have b: "filter (\<lambda>e. exc_type e = ''technosphere'' \<and> exc_product e = ''electricity, high voltage'')
           (supplier_exchanges c (select_multiple_suppliers self (database self)
                       [''transmission network construction, electricity, medium voltage''] region)) = []" for c
      using that by (intro filter_supplier_exchanges_product) auto
    show ?thesis
      unfolding ex filter_append a b
      by (simp add: hv_input_def self_loop_def sf6_emission_def)
  qed
  from 1 3 4 5 show ?thesis
    unfolding Let_def hv_input_def [symmetric] self_loop_def [symmetric] by blast
qed


theorem medium_voltage_market_inputs_witness:
  "\<exists>ds. mv_dataset (example_self ''cutoff'' [0.3, 0.2, 0.5, 0]) ''EUR''
          \<lparr>transf_loss = 0.02, distr_loss = 0.05\<rparr> 20 = Inr ds \<and>
        \<lparr>exc_name = ''market group for electricity, high voltage, 20-year period'',
         exc_product = ''electricity, high voltage'', exc_location = ''EUR'',
         exc_unit = ''kilowatt hour'', exc_type = ''technosphere'',
         exc_amount = 1.05\<rparr> \<in> set (ds_exchanges ds) \<and>
        \<lparr>exc_name = ''market group for electricity, medium voltage, 20-year period'',
         exc_product = ''electricity, medium voltage'', exc_location = ''EUR'',
         exc_unit = ''kilowatt hour'', exc_type = ''technosphere'',
         exc_amount = 0.02\<rparr> \<in> set (ds_exchanges ds) \<and>
        filter (\<lambda>e. exc_type e = ''technosphere'' \<and> exc_product e = ''electricity, high voltage'')
          (ds_exchanges ds) =
        [\<lparr>exc_name = ''market group for electricity, high voltage, 20-year period'',
          exc_product = ''electricity, high voltage'', exc_location = ''EUR'',
          exc_unit = ''kilowatt hour'', exc_type = ''technosphere'',
          exc_amount = 1.05\<rparr>]"
proof -
  obtain ds where ds: "mv_dataset (example_self ''cutoff'' [0.3, 0.2, 0.5, 0]) ''EUR''
          \<lparr>transf_loss = 0.02, distr_loss = 0.05\<rparr> 20 = Inr ds"
    by (simp add: mv_dataset_def database_label_def example_self_def example_database_def)
  have suffix: "period_suffix 20 = '', 20-year period''"
    by code_simp
  show ?thesis
    using medium_voltage_market_inputs [OF ds] ds
    by (simp add: Let_def suffix example_self_def)
qed

section \<open>Properties: low voltage markets\<close>







section \<open>Properties: high voltage markets\<close>






section \<open>Properties: exhaustion of the fallback chain\<close>

lemma resolve_suppliers_exhausted:
  assumes "\<forall>locations \<in> set chain.
             get_suppliers_of_a_region self (database self) locations names
               ''electricity'' ''kilowatt hour'' = []"
  shows "resolve_suppliers self names chain = Inl IndexError"
  using assms by (induction chain) simp_all

lemma resolve_suppliers_found:
  assumes "resolve_suppliers self names chain = Inr suppliers"
  shows "suppliers \<noteq> [] \<and>
         (\<exists>before locations after. chain = before @ locations # after \<and>
            suppliers = get_suppliers_of_a_region self (database self) locations names
                          ''electricity'' ''kilowatt hour'' \<and>
            (\<forall>earlier \<in> set before.
               get_suppliers_of_a_region self (database self) earlier names
                 ''electricity'' ''kilowatt hour'' = []))"
  using assms
proof (induction chain)
  case Nil
  then show ?case by simp
next
  case (Cons locations chain)
  show ?case
  proof (cases "get_suppliers_of_a_region self (database self) locations names
                  ''electricity'' ''kilowatt hour'' = []")
    case True
    with Cons.prems have "resolve_suppliers self names chain = Inr suppliers" by simp
    from Cons.IH [OF this] obtain before l after where
      "chain = before @ l # after"
      "suppliers = get_suppliers_of_a_region self (database self) l names
                          ''electricity'' ''kilowatt hour''"
      "\<forall>earlier \<in> set before.
               get_suppliers_of_a_region self (database self) earlier names
                 ''electricity'' ''kilowatt hour'' = []" "suppliers \<noteq> []"
      by blast
    with True show ?thesis
      by (intro conjI exI [of _ "locations # before"] exI [of _ l] exI [of _ after]) auto
  next
    case False
    with Cons.prems show ?thesis
      by (intro conjI exI [of _ "[]"] exI [of _ locations] exI [of _ chain]) (auto simp: Let_def)
  qed
qed

lemma suppliers_of_technology_exhausted:
  assumes "\<forall>locations \<in> set (possible_locations self region).
             get_suppliers_of_a_region self (database self) locations names
               ''electricity'' ''kilowatt hour'' = []"
  shows "suppliers_of_technology self region names = Inl IndexError"
  by (simp add: suppliers_of_technology_def resolve_suppliers_exhausted [OF assms])

text \<open>
  The high voltage builder on an exhausted chain: the technology is skipped in the
  consequential mode, and the \<^verbatim>\<open>IndexError\<close> leaves the method in every other mode.
\<close>

lemma hv_tech_suppliers_exhausted:
  assumes "\<forall>locations \<in> set (possible_locations self region).
             get_suppliers_of_a_region self (database self) locations names
               ''electricity'' ''kilowatt hour'' = []"
  shows "hv_tech_suppliers self region ((technology, names) # rest) tech_suppliers =
           (if system_model self = ''consequential''
            then hv_tech_suppliers self region rest tech_suppliers
            else Inl IndexError)"
  by (simp add: suppliers_of_technology_exhausted [OF assms])

text \<open>
  The low voltage builder on an exhausted chain: the \<^verbatim>\<open>IndexError\<close> leaves the
  method whatever the mode.
\<close>

lemma lv_tech_suppliers_exhausted:
  assumes "\<forall>locations \<in> set (possible_locations self region).
             get_suppliers_of_a_region self (database self) locations names
               ''electricity'' ''kilowatt hour'' = []"
  shows "lv_tech_suppliers self region ((technology, names) # rest) tech_suppliers =
           Inl IndexError"
  by (simp add: suppliers_of_technology_exhausted [OF assms])

lemma high_voltage_exhaustion_skipped:
  "case create_new_markets_high_voltage
          (example_without_gas ''consequential'' [0.3, 0.2, 0.4, 0.1]) of
     Inl _ \<Rightarrow> False
   | Inr self' \<Rightarrow>
       length (database self') = 5 \<and>
       filter (\<lambda>e. exc_name e = ''gas plant'') (ds_exchanges (last (database self'))) = []"
  by code_simp

lemma high_voltage_exhaustion_fatal:
  "case create_new_markets_high_voltage (example_without_gas ''cutoff'' [0.3, 0.2, 0.4, 0.1]) of
     Inl e \<Rightarrow> e = IndexError
   | Inr _ \<Rightarrow> False"
  by code_simp

lemma low_voltage_exhaustion_fatal:
  "case create_new_markets_low_voltage
          (example_without_rooftop ''cutoff'' [0.3, 0.2, 0.4, 0.1]) of
     Inl e \<Rightarrow> e = IndexError
   | Inr _ \<Rightarrow> False"
  by code_simp

text \<open>
  C5: on an exhausted fallback chain the claim has every tier skip the technology and go
  on in the consequential mode. The low voltage builder, run in the consequential mode on
  a database without any supplier of residential photovoltaics, raises
  \<^verbatim>\<open>IndexError\<close> instead.
\<close>

theorem low_voltage_exhaustion_raises:
  "create_new_markets_low_voltage
     (example_without_rooftop ''consequential'' [0.3, 0.2, 0.4, 0.1]) = Inl IndexError"
proof -
  have "case create_new_markets_low_voltage
               (example_without_rooftop ''consequential'' [0.3, 0.2, 0.4, 0.1]) of
          Inl e \<Rightarrow> e = IndexError
        | Inr _ \<Rightarrow> False"
    by code_simp
  then show ?thesis by (auto split: sum.splits)
qed

section \<open>Properties: efficiency of photovoltaic panels\<close>

lemma projected_efficiency_range:
  assumes "projected_efficiency efficiency exc = Some new_eff"
  shows "0.1 \<le> new_eff \<and> new_eff \<le> 0.27"
  using assms
  by (auto simp: projected_efficiency_def clip_def split: list.splits)

lemma update_pv_exchanges_result:
  assumes "update_pv_exchanges efficiency peak_power excs log_parameters = Inr (excs', log')"
  shows "list_all2 (\<lambda>exc exc'.
            case improved_efficiency efficiency peak_power exc of
              None \<Rightarrow> exc' = exc
            | Some new_eff \<Rightarrow>
                exc' = exc\<lparr>exc_amount := exc_amount exc * (peak_power / exc_amount exc / new_eff)\<rparr>)
           excs excs' \<and>
         ((\<forall>exc \<in> set excs. improved_efficiency efficiency peak_power exc = None) \<longrightarrow>
            log' = log_parameters)"
  using assms
proof (induction excs arbitrary: log_parameters excs' log')
  case Nil
  then show ?case by simp
next
  case (Cons exc rest)
  show ?case
  proof (cases "improved_efficiency efficiency peak_power exc")
    case None
    with Cons.prems obtain rest' where
      r: "update_pv_exchanges efficiency peak_power rest log_parameters = Inr (rest', log')"
      and e: "excs' = exc # rest'"
      by (auto simp: improved_efficiency_def bind_err_Inr_iff py_truediv_def
            split: if_splits option.splits)
    from Cons.IH [OF r] None e show ?thesis by simp
  next
    case (Some new_eff)
    with Cons.prems obtain rest' where
      r: "update_pv_exchanges efficiency peak_power rest
            (AList.update ''new efficiency'' new_eff
               (AList.update ''old efficiency'' (peak_power / exc_amount exc) log_parameters))
          = Inr (rest', log')"
      and e: "excs' = exc\<lparr>exc_amount := exc_amount exc * (peak_power / exc_amount exc / new_eff)\<rparr> # rest'"
      by (auto simp: improved_efficiency_def bind_err_Inr_iff py_truediv_def
            split: if_splits option.splits)
    from Cons.IH [OF r] Some e show ?thesis by simp
  qed
qed

lemma list_all2_same_eq:
  "list_all2 (\<lambda>x y. y = x) xs ys \<Longrightarrow> ys = xs"
  by (induction xs ys rule: list_all2_induct) simp_all

lemma shrink_factor:
  fixes new_eff current :: real
  assumes "0.1 \<le> new_eff" "current < new_eff"
  shows "current / new_eff < 1"
  using assms by (simp add: divide_less_eq)

text \<open>
  C10, as amended: when the update of a photovoltaic installation returns, an exchange is
  changed only if it is a panel surface whose projected module efficiency, clipped to the
  range from 0.1 to 0.27, is above the current efficiency (rated power by surface). Its
  amount is then multiplied by the current efficiency over the new one, a factor below 1,
  and a positive surface decreases. Every other exchange is unchanged, and when no
  exchange is changed the dataset is unchanged.
\<close>

theorem pv_surface_update:
  assumes "update_pv_dataset efficiency dataset = Inr dataset'"
  shows "\<exists>peak_power.
           rated_power (ds_name dataset) = Inr peak_power \<and>
           list_all2 (\<lambda>exc exc'.
              case improved_efficiency efficiency peak_power exc of
                None \<Rightarrow> exc' = exc
              | Some new_eff \<Rightarrow>
                  exc' = exc\<lparr>exc_amount :=
                            exc_amount exc * (peak_power / exc_amount exc / new_eff)\<rparr> \<and>
                  peak_power / exc_amount exc / new_eff < 1 \<and>
                  (0 < exc_amount exc \<longrightarrow> exc_amount exc' < exc_amount exc))
             (ds_exchanges dataset) (ds_exchanges dataset') \<and>
           ((\<forall>exc \<in> set (ds_exchanges dataset).
               improved_efficiency efficiency peak_power exc = None) \<longrightarrow>
            dataset' = dataset)"
proof -
  from assms obtain peak_power excs' log' where
    p: "rated_power (ds_name dataset) = Inr peak_power"
    and u: "update_pv_exchanges efficiency peak_power (ds_exchanges dataset)
              (ds_log_parameters dataset) = Inr (excs', log')"
    and d: "dataset' = dataset\<lparr>ds_exchanges := excs', ds_log_parameters := log'\<rparr>"
    by (auto simp: update_pv_dataset_def bind_err_Inr_iff)
  note r = update_pv_exchanges_result [OF u]
  have step: "case improved_efficiency efficiency peak_power exc of
                None \<Rightarrow> exc' = exc
              | Some new_eff \<Rightarrow>
                  exc' = exc\<lparr>exc_amount :=
                            exc_amount exc * (peak_power / exc_amount exc / new_eff)\<rparr> \<and>
                  peak_power / exc_amount exc / new_eff < 1 \<and>
                  (0 < exc_amount exc \<longrightarrow> exc_amount exc' < exc_amount exc)"
    if "case improved_efficiency efficiency peak_power exc of
              None \<Rightarrow> exc' = exc
            | Some new_eff \<Rightarrow>
                exc' = exc\<lparr>exc_amount := exc_amount exc * (peak_power / exc_amount exc / new_eff)\<rparr>"
    for exc exc'
  proof (cases "improved_efficiency efficiency peak_power exc")
    case None
    with that show ?thesis by simp
  next
    case (Some new_eff)
    then have "0.1 \<le> new_eff" "peak_power / exc_amount exc < new_eff"
      using projected_efficiency_range [of efficiency exc new_eff]
      by (auto simp: improved_efficiency_def split: if_splits option.splits)
    then have f: "peak_power / exc_amount exc / new_eff < 1" by (rule shrink_factor)
    have "exc_amount exc * (peak_power / exc_amount exc / new_eff) < exc_amount exc"
      if "0 < exc_amount exc"
      using that f by (metis mult.right_neutral mult_strict_left_mono)
    with that Some f show ?thesis by simp
  qed
  have all: "list_all2 (\<lambda>exc exc'.
              case improved_efficiency efficiency peak_power exc of
                None \<Rightarrow> exc' = exc
              | Some new_eff \<Rightarrow>
                  exc' = exc\<lparr>exc_amount :=
                            exc_amount exc * (peak_power / exc_amount exc / new_eff)\<rparr> \<and>
                  peak_power / exc_amount exc / new_eff < 1 \<and>
                  (0 < exc_amount exc \<longrightarrow> exc_amount exc' < exc_amount exc))
             (ds_exchanges dataset) excs'"
    using r step by (auto elim!: list_all2_mono)
  have same: "dataset' = dataset"
    if n: "\<forall>exc \<in> set (ds_exchanges dataset). improved_efficiency efficiency peak_power exc = None"
  proof -
    from r n have l: "log' = ds_log_parameters dataset" by simp
    from r have "list_all2 (\<lambda>exc exc'.
            case improved_efficiency efficiency peak_power exc of
              None \<Rightarrow> exc' = exc
            | Some new_eff \<Rightarrow>
                exc' = exc\<lparr>exc_amount := exc_amount exc * (peak_power / exc_amount exc / new_eff)\<rparr>)
           (ds_exchanges dataset) excs'" by simp
    then have "list_all2 (\<lambda>exc exc'. exc' = exc) (ds_exchanges dataset) excs'"
      by (rule list.rel_mono_strong) (use n in auto)
    then have "excs' = ds_exchanges dataset" by (rule list_all2_same_eq)
    with l d show ?thesis by simp
  qed
  from p all same d show ?thesis by auto
qed


theorem pv_surface_update_witness:
  "update_pv_dataset flat_module_eff (pv_installation 20) =
     Inr ((pv_installation 15)
            \<lparr>ds_log_parameters := [(''old efficiency'', 0.15), (''new efficiency'', 0.2)]\<rparr>) \<and>
   rated_power (ds_name (pv_installation 20)) = Inr 3 \<and>
   improved_efficiency flat_module_eff 3 (hd (ds_exchanges (pv_installation 20))) = Some 0.2 \<and>
   (3 / 20 / 0.2 :: real) < 1"
proof -
  have run: "update_pv_dataset flat_module_eff (pv_installation 20) =
     Inr ((pv_installation 15)
            \<lparr>ds_log_parameters := [(''old efficiency'', 0.15), (''new efficiency'', 0.2)]\<rparr>)"
    by code_simp
  have rated: "rated_power (ds_name (pv_installation 20)) = Inr 3"
    by code_simp
  have improved:
    "improved_efficiency flat_module_eff 3 (hd (ds_exchanges (pv_installation 20))) = Some 0.2"
    by code_simp
  show ?thesis
    using pv_surface_update [OF run] run rated improved
    by simp
qed

text \<open>
  C10, as claimed, has the surface never increase. A negative surface of -5 square meter
  has a negative current efficiency, below every projected one, and the factor -3 turns it
  into 15 square meter.
\<close>

theorem pv_surface_increases:
  "update_pv_dataset flat_module_eff (pv_installation (- 5)) =
     Inr ((pv_installation 15)
            \<lparr>ds_log_parameters := [(''old efficiency'', - 0.6), (''new efficiency'', 0.2)]\<rparr>) \<and>
   map exc_amount (ds_exchanges (pv_installation (- 5))) = [- 5] \<and>
   map exc_amount (ds_exchanges (pv_installation 15)) = [15] \<and>
   (- 5 :: real) < 15"
  by code_simp

section \<open>Properties: region-specific power plants\<close>

lemma map_err_Inr_image:
  assumes "map_err f xs = Inr ys" and "y \<in> set ys"
  shows "\<exists>x \<in> set xs. f x = Inr y"
  using assms
  by (induction xs arbitrary: ys) (auto split: sum.splits)






text \<open>
  Every plant that \<^verbatim>\<open>create_region_specific_power_plants\<close> adds is a copy returned by
  \<^verbatim>\<open>fetch_proxies\<close>, adjusted when the technology of its template is a CHP CCS one.
\<close>

lemma duplicate_plants_member:
  assumes "duplicate_plants self datasets = Inr all_plants"
    and "plant' \<in> set all_plants"
  shows "\<exists>dataset \<in> set datasets.
           \<exists>plant \<in> set (fetch_proxies self (database self) (ds_name dataset)
                             (ds_reference_product dataset)
                             (powerplant_map_rev self (ds_name dataset))).
             if str_in ''CHP CCS''
                  (case powerplant_map_rev self (ds_name dataset) of
                     None \<Rightarrow> [] | Some technology \<Rightarrow> technology)
             then adjust_co2_capture (database self) plant = Inr plant'
             else plant' = plant"
  using assms
proof (induction datasets arbitrary: all_plants)
  case Nil
  then show ?case by simp
next
  case (Cons dataset rest)
  let ?proxies = "fetch_proxies self (database self) (ds_name dataset)
                    (ds_reference_product dataset) (powerplant_map_rev self (ds_name dataset))"
  let ?chp = "str_in ''CHP CCS''
                (case powerplant_map_rev self (ds_name dataset) of
                   None \<Rightarrow> [] | Some technology \<Rightarrow> technology)"
  from Cons.prems(1) obtain new_plants more where
    n: "(if ?chp then map_err (adjust_co2_capture (database self)) ?proxies
         else Inr ?proxies) = Inr new_plants"
    and m: "duplicate_plants self rest = Inr more"
    and a: "all_plants = new_plants @ more"
    by (auto simp: Let_def bind_err_Inr_iff)
  from Cons.prems(2) a consider "plant' \<in> set new_plants" | "plant' \<in> set more" by auto
  then show ?case
  proof cases
    case 1
    have "\<exists>plant \<in> set ?proxies.
            if ?chp then adjust_co2_capture (database self) plant = Inr plant'
            else plant' = plant"
    proof (cases ?chp)
      case True
      with n have "map_err (adjust_co2_capture (database self)) ?proxies = Inr new_plants"
        by simp
      from map_err_Inr_image [OF this 1] True show ?thesis by auto
    next
      case False
      with n 1 show ?thesis by auto
    qed
    then show ?thesis by auto
  next
    case 2
    from Cons.IH [OF m 2] show ?thesis by auto
  qed
qed

section \<open>Properties: efficiency of power plants\<close>

text \<open>
  C8, as amended: when the rescaling of a power-generation dataset returns, the amount of
  every technosphere exchange (and of every biosphere exchange) is multiplied by one over
  the efficiency change that the scenario gives for the technology and the region. The
  new efficiency that the code records is the current efficiency times that change,
  clipped to the range from 0 to 1; the factor is the current efficiency over the new one
  whenever the current efficiency is not zero and the clipping does not act. A current
  efficiency of 0.35 and a new one of 0.40 give the factor 0.875.
\<close>

theorem efficiency_rescaling_factor:
  assumes "update_dataset_efficiency self technology dict_technology dataset = Inr dataset'"
  shows "let ei_eff = current_eff_func dict_technology dataset (fuel_filters dict_technology) 3.6;
             change = IAM_eff_func dict_technology technology
                        (ecoinvent_to_iam_location self (ds_location dataset));
             target = clip (ei_eff * change) 0 1
         in change \<noteq> 0 \<and>
            map_of (ds_log_parameters dataset') ''old efficiency'' = Some ei_eff \<and>
            map_of (ds_log_parameters dataset') ''new efficiency'' = Some target \<and>
            ds_exchanges dataset' =
              map (\<lambda>exc. if exc_type exc = ''technosphere'' \<or> exc_type exc = ''biosphere''
                          then exc\<lparr>exc_amount := exc_amount exc * (1 / change)\<rparr> else exc)
                (ds_exchanges dataset) \<and>
            (ei_eff \<noteq> 0 \<and> 0 \<le> ei_eff * change \<and> ei_eff * change \<le> 1 \<longrightarrow>
               1 / change = ei_eff / target)"
proof -
  define ei_eff where "ei_eff = current_eff_func dict_technology dataset (fuel_filters dict_technology) 3.6"
  define change where "change = IAM_eff_func dict_technology technology
                        (ecoinvent_to_iam_location self (ds_location dataset))"
  define target where "target = clip (ei_eff * change) 0 1"
  from assms have run:
    "bind_err (py_truediv 1 change) (\<lambda>scaling_factor.
       bind_err (new_efficiency ei_eff scaling_factor) (\<lambda>new_eff.
       Inr (change_exchanges_by_constant_factor
              (dataset\<lparr>ds_log_parameters :=
                  AList.update ''new efficiency'' new_eff
                    (AList.update ''old efficiency'' ei_eff (ds_log_parameters dataset))\<rparr>)
              scaling_factor))) = Inr dataset'"
    unfolding update_dataset_efficiency_def Let_def ei_eff_def change_def .
  then have nz: "change \<noteq> 0"
    by (auto simp: bind_err_Inr_iff py_truediv_def split: if_splits)
  then have n: "new_efficiency ei_eff (1 / change) = Inr target"
    by (simp add: new_efficiency_def py_truediv_def target_def)
  from run nz n have d: "dataset' = change_exchanges_by_constant_factor
             (dataset\<lparr>ds_log_parameters :=
                 AList.update ''new efficiency'' target
                   (AList.update ''old efficiency'' ei_eff (ds_log_parameters dataset))\<rparr>)
             (1 / change)"
    by (simp add: py_truediv_def)
  have 1: "map_of (ds_log_parameters dataset') ''old efficiency'' = Some ei_eff"
    and 2: "map_of (ds_log_parameters dataset') ''new efficiency'' = Some target"
    and 3: "ds_exchanges dataset' =
              map (\<lambda>exc. if exc_type exc = ''technosphere'' \<or> exc_type exc = ''biosphere''
                          then exc\<lparr>exc_amount := exc_amount exc * (1 / change)\<rparr> else exc)
                (ds_exchanges dataset)"
    by (simp_all add: d change_exchanges_by_constant_factor_def update_conv')
  have 4: "1 / change = ei_eff / target"
    if "ei_eff \<noteq> 0" "0 \<le> ei_eff * change" "ei_eff * change \<le> 1"
  proof -
    from that have "target = ei_eff * change" by (simp add: target_def clip_def)
    with that(1) nz show ?thesis by simp
  qed
  from nz 1 2 3 4 show ?thesis
    unfolding Let_def ei_eff_def [symmetric] change_def [symmetric] target_def [symmetric]
    by blast
qed

theorem efficiency_rescaling_factor_witness:
  "update_dataset_efficiency (example_self ''cutoff'' []) ''Coal PC''
     (example_mapping 0.35 (8 / 7)) (fuelled_plant 8) =
     Inr ((fuelled_plant 7)
            \<lparr>ds_log_parameters := [(''old efficiency'', 0.35), (''new efficiency'', 0.4)]\<rparr>) \<and>
   (1 / (8 / 7) :: real) = 0.875 \<and> (0.35 / 0.4 :: real) = 0.875"
proof -
  have run: "update_dataset_efficiency (example_self ''cutoff'' []) ''Coal PC''
     (example_mapping 0.35 (8 / 7)) (fuelled_plant 8) =
     Inr ((fuelled_plant 7)
            \<lparr>ds_log_parameters := [(''old efficiency'', 0.35), (''new efficiency'', 0.4)]\<rparr>)"
    by code_simp
  show ?thesis
    using efficiency_rescaling_factor [OF run] run by simp
qed

text \<open>
  C8, as claimed, has the factor be the current efficiency over the target one. With a
  current efficiency of 0.5 and a change of 3 the new efficiency is clipped to 1; the
  amount 6 becomes 2, not 6 times 0.5.
\<close>

theorem efficiency_rescaling_clipped:
  "update_dataset_efficiency (example_self ''cutoff'' []) ''Coal PC''
     (example_mapping 0.5 3) (fuelled_plant 6) =
     Inr ((fuelled_plant 2)
            \<lparr>ds_log_parameters := [(''old efficiency'', 0.5), (''new efficiency'', 1)]\<rparr>) \<and>
   (2 :: real) \<noteq> 6 * (0.5 / 1)"
  by code_simp

section \<open>Properties: the market builders as a whole\<close>

text \<open>
  Each builder returns the database it received followed by one market per region and
  period, in the order of the loops, and each market is the dataset of one pass of the
  loop over the periods, built on the object as it had grown by then.
\<close>

lemma grown_from_refl: "grown_from self self"
  unfolding grown_from_def by (intro exI [of _ "[]"]) simp

lemma grown_from_trans:
  assumes "grown_from s2 s1" and "grown_from s1 s0"
  shows "grown_from s2 s0"
proof -
  from assms(2) obtain d1 e1 where
    1: "s1 = s0\<lparr>database := database s0 @ d1, created := created s0 @ e1\<rparr>"
    unfolding grown_from_def by blast
  from assms(1) obtain d2 e2 where
    2: "s2 = s1\<lparr>database := database s1 @ d2, created := created s1 @ e2\<rparr>"
    unfolding grown_from_def by blast
  have "s2 = s0\<lparr>database := database s0 @ (d1 @ d2), created := created s0 @ (e1 @ e2)\<rparr>"
    by (simp add: 1 2)
  then show ?thesis unfolding grown_from_def by blast
qed

lemma grown_from_append: "grown_from (append_created self ds) self"
  unfolding grown_from_def append_created_def by blast

lemma grown_from_fields:
  assumes "grown_from s self"
  shows "periods s = periods self" "regions s = regions self"
    "network_loss_of s = network_loss_of self"
  using assms by (auto simp: grown_from_def periods_def network_loss_of_def fun_eq_iff)

lemma fold_periods_database:
  assumes "fold_err (\<lambda>s period. bind_err (build s period)
                       (\<lambda>new_dataset. Inr (append_created s new_dataset))) s0 ps = Inr s'"
  shows "grown_from s' s0 \<and>
         (\<exists>datasets. database s' = database s0 @ datasets \<and>
            list_all2 (\<lambda>ds period. \<exists>s. grown_from s s0 \<and> build s period = Inr ds)
              datasets ps)"
  using assms
proof (induction ps arbitrary: s0)
  case Nil
  then show ?case by (simp add: grown_from_refl)
next
  case (Cons p ps)
  from Cons.prems obtain ds where
    b: "build s0 p = Inr ds"
    and r: "fold_err (\<lambda>s period. bind_err (build s period)
                       (\<lambda>new_dataset. Inr (append_created s new_dataset)))
              (append_created s0 ds) ps = Inr s'"
    by (auto simp: bind_err_Inr_iff split: sum.splits)
  from Cons.IH [OF r] obtain datasets where
    g: "grown_from s' (append_created s0 ds)"
    and d: "database s' = database (append_created s0 ds) @ datasets"
    and l: "list_all2 (\<lambda>ds' period. \<exists>s. grown_from s (append_created s0 ds) \<and>
                         build s period = Inr ds') datasets ps"
    by blast
  have g0: "grown_from s' s0"
    using g grown_from_append by (rule grown_from_trans)
  have l0: "list_all2 (\<lambda>ds' period. \<exists>s. grown_from s s0 \<and> build s period = Inr ds')
              datasets ps"
    using l by (rule list_all2_mono) (blast intro: grown_from_trans grown_from_append)
  from b grown_from_refl [of s0]
  have "list_all2 (\<lambda>ds' period. \<exists>s. grown_from s s0 \<and> build s period = Inr ds')
          (ds # datasets) (p # ps)"
    using l0 by auto
  moreover have "database s' = database s0 @ ds # datasets"
    using d by (simp add: append_created_def)
  ultimately show ?case using g0 by blast
qed

lemma fold_regions_database:
  assumes "fold_err step s0 rs = Inr s'"
    and "\<And>s region s''. grown_from s s0 \<Longrightarrow> step s region = Inr s'' \<Longrightarrow>
           grown_from s'' s \<and>
           (\<exists>datasets. database s'' = database s @ datasets \<and>
              list_all2 (built region) datasets (periods s0))"
  shows "grown_from s' s0 \<and>
         (\<exists>datasets. database s' = database s0 @ datasets \<and>
            list_all2 (\<lambda>ds (region, period). built region ds period) datasets
              (List.product rs (periods s0)))"
proof -
  have "grown_from s s0 \<Longrightarrow> fold_err step s rs = Inr s' \<Longrightarrow>
        grown_from s' s0 \<and>
         (\<exists>datasets. database s' = database s @ datasets \<and>
            list_all2 (\<lambda>ds (region, period). built region ds period) datasets
              (List.product rs (periods s0)))" for s
  proof (induction rs arbitrary: s)
    case Nil
    then show ?case by simp
  next
    case (Cons region rs)
    from Cons.prems(2) obtain s'' where
      st: "step s region = Inr s''" and r: "fold_err step s'' rs = Inr s'"
      by (auto split: sum.splits)
    from assms(2) [OF Cons.prems(1) st] obtain d1 where
      g1: "grown_from s'' s" and d1: "database s'' = database s @ d1"
      and l1: "list_all2 (built region) d1 (periods s0)"
      by blast
    have g2: "grown_from s'' s0" using g1 Cons.prems(1) by (rule grown_from_trans)
    from Cons.IH [OF g2 r] obtain d2 where
      g3: "grown_from s' s0" and d2: "database s' = database s'' @ d2"
      and l2: "list_all2 (\<lambda>ds (region, period). built region ds period) d2
                 (List.product rs (periods s0))"
      by blast
    have "list_all2 (\<lambda>ds (region, period). built region ds period) d1
            (map (Pair region) (periods s0))"
      using l1 by (simp add: list_all2_map2)
    with l2 have "list_all2 (\<lambda>ds (region, period). built region ds period) (d1 @ d2)
            (List.product (region # rs) (periods s0))"
      by (simp add: list_all2_appendI)
    moreover have "database s' = database s @ (d1 @ d2)" by (simp add: d1 d2)
    ultimately show ?case using g3 by blast
  qed
  from this [OF grown_from_refl assms(1)] show ?thesis .
qed

lemma medium_voltage_builder:
  assumes "create_new_markets_medium_voltage self = Inr self'"
  shows "\<exists>datasets. database self' = database self @ datasets \<and>
           list_all2 (\<lambda>ds (region, period).
               \<exists>s losses. grown_from s self \<and> network_loss self region = Some losses \<and>
                 mv_dataset s region (medium losses) period = Inr ds)
             datasets (List.product (regions self) (periods self))"
proof -
  define built where "built = (\<lambda>region ds period.
     \<exists>s losses. grown_from s self \<and> network_loss self region = Some losses \<and>
                 mv_dataset s region (medium losses) period = Inr ds)"
  have step: "grown_from s'' s \<and>
           (\<exists>datasets. database s'' = database s @ datasets \<and>
              list_all2 (built region) datasets (periods self))"
    if g: "grown_from s self" and m: "mv_region s region = Inr s''" for s region s''
  proof -
    from m obtain losses where
      n: "network_loss_of s region = Inr losses"
      and f: "fold_err (\<lambda>s period. bind_err (mv_dataset s region (medium losses) period)
                 (\<lambda>new_dataset. Inr (append_created s new_dataset))) s (periods s) = Inr s''"
      by (auto simp: mv_region_def bind_err_Inr_iff)
    from n g have nl: "network_loss self region = Some losses"
      by (auto simp: grown_from_fields(3) network_loss_of_def split: option.splits)
    from fold_periods_database [OF f] obtain datasets where
      a: "grown_from s'' s" and b: "database s'' = database s @ datasets"
      and c: "list_all2 (\<lambda>ds period. \<exists>t. grown_from t s \<and>
                 mv_dataset t region (medium losses) period = Inr ds) datasets (periods s)"
      by blast
    from c have "list_all2 (built region) datasets (periods s)"
      unfolding built_def
      by (rule list_all2_mono) (use nl g in \<open>blast intro: grown_from_trans\<close>)
    with a b g show ?thesis by (auto simp: grown_from_fields(1))
  qed
  from assms have f: "fold_err mv_region self (regions self) = Inr self'"
    by (simp add: create_new_markets_medium_voltage_def)
  have "grown_from self' self \<and>
         (\<exists>datasets. database self' = database self @ datasets \<and>
            list_all2 (\<lambda>ds (region, period). built region ds period) datasets
              (List.product (regions self) (periods self)))"
    using f step by (rule fold_regions_database [where built = built])
  then show ?thesis unfolding built_def by blast
qed

lemma high_voltage_builder:
  assumes "create_new_markets_high_voltage self = Inr self'"
  shows "\<exists>eco datasets.
           ecoinvent_technologies self (hv_technologies self) = Inr eco \<and>
           database self' = database self @ datasets \<and>
           list_all2 (\<lambda>ds (region, period).
               \<exists>s0 s losses tech_suppliers.
                 grown_from s0 self \<and> grown_from s s0 \<and>
                 network_loss self region = Some losses \<and>
                 hv_tech_suppliers s0 region eco (\<lambda>_. []) = Inr tech_suppliers \<and>
                 hv_dataset s region (transf_loss (high losses)) tech_suppliers period = Inr ds)
             datasets (List.product (regions self) (periods self))"
proof -
  from assms obtain eco where
    e: "ecoinvent_technologies self (hv_technologies self) = Inr eco"
    and f: "fold_err (hv_region eco) self (regions self) = Inr self'"
    by (auto simp: create_new_markets_high_voltage_def bind_err_Inr_iff)
  define built where "built = (\<lambda>region ds period.
     \<exists>s0 s losses tech_suppliers.
                 grown_from s0 self \<and> grown_from s s0 \<and>
                 network_loss self region = Some losses \<and>
                 hv_tech_suppliers s0 region eco (\<lambda>_. []) = Inr tech_suppliers \<and>
                 hv_dataset s region (transf_loss (high losses)) tech_suppliers period = Inr ds)"
  have step: "grown_from s'' s \<and>
           (\<exists>datasets. database s'' = database s @ datasets \<and>
              list_all2 (built region) datasets (periods self))"
    if g: "grown_from s self" and m: "hv_region eco s region = Inr s''" for s region s''
  proof -
    from m obtain losses tech_suppliers where
      n: "network_loss_of s region = Inr losses"
      and t: "hv_tech_suppliers s region eco (\<lambda>_. []) = Inr tech_suppliers"
      and f: "fold_err (\<lambda>s period.
                 bind_err (hv_dataset s region (transf_loss (high losses)) tech_suppliers period)
                 (\<lambda>new_dataset. Inr (append_created s new_dataset))) s (periods s) = Inr s''"
      by (auto simp: hv_region_def Let_def bind_err_Inr_iff)
    from n g have nl: "network_loss self region = Some losses"
      by (auto simp: grown_from_fields(3) network_loss_of_def split: option.splits)
    from fold_periods_database [OF f] obtain datasets where
      a: "grown_from s'' s" and b: "database s'' = database s @ datasets"
      and c: "list_all2 (\<lambda>ds period. \<exists>u. grown_from u s \<and>
                 hv_dataset u region (transf_loss (high losses)) tech_suppliers period = Inr ds)
               datasets (periods s)"
      by blast
    from c have "list_all2 (built region) datasets (periods s)"
      unfolding built_def
      by (rule list_all2_mono) (use nl g t in blast)
    with a b g show ?thesis by (auto simp: grown_from_fields(1))
  qed
  have "grown_from self' self \<and>
         (\<exists>datasets. database self' = database self @ datasets \<and>
            list_all2 (\<lambda>ds (region, period). built region ds period) datasets
              (List.product (regions self) (periods self)))"
    using f step by (rule fold_regions_database [where built = built])
  with e show ?thesis unfolding built_def by blast
qed

lemma low_voltage_builder:
  assumes "create_new_markets_low_voltage self = Inr self'"
  shows "\<exists>eco datasets.
           ecoinvent_technologies self (lv_technologies self) = Inr eco \<and>
           database self' = database self @ datasets \<and>
           list_all2 (\<lambda>ds (region, period).
               \<exists>s0 s losses tech_suppliers.
                 grown_from s0 self \<and> grown_from s s0 \<and>
                 network_loss self region = Some losses \<and>
                 lv_tech_suppliers s0 region eco (\<lambda>_. []) = Inr tech_suppliers \<and>
                 lv_dataset s region (low losses) tech_suppliers period = Inr ds)
             datasets (List.product (regions self) (periods self))"
proof -
  from assms obtain eco where
    e: "ecoinvent_technologies self (lv_technologies self) = Inr eco"
    and f: "fold_err (lv_region eco) self (regions self) = Inr self'"
    by (auto simp: create_new_markets_low_voltage_def bind_err_Inr_iff)
  define built where "built = (\<lambda>region ds period.
     \<exists>s0 s losses tech_suppliers.
                 grown_from s0 self \<and> grown_from s s0 \<and>
                 network_loss self region = Some losses \<and>
                 lv_tech_suppliers s0 region eco (\<lambda>_. []) = Inr tech_suppliers \<and>
                 lv_dataset s region (low losses) tech_suppliers period = Inr ds)"
  have step: "grown_from s'' s \<and>
           (\<exists>datasets. database s'' = database s @ datasets \<and>
              list_all2 (built region) datasets (periods self))"
    if g: "grown_from s self" and m: "lv_region eco s region = Inr s''" for s region s''
  proof -
    from m obtain losses tech_suppliers where
      n: "network_loss_of s region = Inr losses"
      and t: "lv_tech_suppliers s region eco (\<lambda>_. []) = Inr tech_suppliers"
      and f: "fold_err (\<lambda>s period.
                 bind_err (lv_dataset s region (low losses) tech_suppliers period)
                 (\<lambda>new_dataset. Inr (append_created s new_dataset))) s (periods s) = Inr s''"
      by (auto simp: lv_region_def Let_def bind_err_Inr_iff)
    from n g have nl: "network_loss self region = Some losses"
      by (auto simp: grown_from_fields(3) network_loss_of_def split: option.splits)
    from fold_periods_database [OF f] obtain datasets where
      a: "grown_from s'' s" and b: "database s'' = database s @ datasets"
      and c: "list_all2 (\<lambda>ds period. \<exists>u. grown_from u s \<and>
                 lv_dataset u region (low losses) tech_suppliers period = Inr ds)
               datasets (periods s)"
      by blast
    from c have "list_all2 (built region) datasets (periods s)"
      unfolding built_def
      by (rule list_all2_mono) (use nl g t in blast)
    with a b g show ?thesis by (auto simp: grown_from_fields(1))
  qed
  have "grown_from self' self \<and>
         (\<exists>datasets. database self' = database self @ datasets \<and>
            list_all2 (\<lambda>ds (region, period). built region ds period) datasets
              (List.product (regions self) (periods self)))"
    using f step by (rule fold_regions_database [where built = built])
  with e show ?thesis unfolding built_def by blast
qed

text \<open>
  What \<^verbatim>\<open>tech_suppliers[technology]\<close> holds after the loop over the technologies of the
  high voltage builder: the allocation of the resolved suppliers, or nothing when the
  chain was exhausted in the consequential mode.
\<close>

lemma hv_tech_suppliers_other:
  assumes "hv_tech_suppliers self region eco ts0 = Inr ts" and "technology \<notin> fst ` set eco"
  shows "ts technology = ts0 technology"
  using assms
proof (induction eco arbitrary: ts0)
  case Nil
  then show ?case by simp
next
  case (Cons entry eco)
  obtain t names where entry: "entry = (t, names)" by (cases entry)
  from Cons.prems(2) entry have nt: "technology \<noteq> t" and rest: "technology \<notin> fst ` set eco"
    by auto
  show ?case
  proof (cases "suppliers_of_technology self region names")
    case (Inl e)
    with Cons.prems(1) entry have "hv_tech_suppliers self region eco ts0 = Inr ts"
      by (auto split: if_splits)
    from Cons.IH [OF this rest] show ?thesis .
  next
    case (Inr allocation)
    with Cons.prems(1) entry
    have "hv_tech_suppliers self region eco (ts0(t := allocation)) = Inr ts" by simp
    from Cons.IH [OF this rest] nt show ?thesis by simp
  qed
qed

lemma hv_tech_suppliers_allocation:
  assumes "hv_tech_suppliers self region eco ts0 = Inr ts"
    and "distinct (map fst eco)" and "(technology, names) \<in> set eco"
  shows "suppliers_of_technology self region names = Inr (ts technology) \<or>
         suppliers_of_technology self region names = Inl IndexError \<and>
         system_model self = ''consequential'' \<and> ts technology = ts0 technology"
  using assms
proof (induction eco arbitrary: ts0)
  case Nil
  then show ?case by simp
next
  case (Cons entry eco)
  obtain t ns where entry: "entry = (t, ns)" by (cases entry)
  from Cons.prems(2) entry have d: "distinct (map fst eco)" and tn: "t \<notin> fst ` set eco"
    by auto
  show ?case
  proof (cases "(technology, names) = entry")
    case True
    with entry have eq: "t = technology" "ns = names" by simp_all
    show ?thesis
    proof (cases "suppliers_of_technology self region names")
      case (Inl e)
      with Cons.prems(1) entry eq
      have r: "hv_tech_suppliers self region eco ts0 = Inr ts"
        and e: "e = IndexError" "system_model self = ''consequential''"
        by (auto split: if_splits)
      from hv_tech_suppliers_other [OF r] tn eq have "ts technology = ts0 technology" by simp
      with Inl e show ?thesis by simp
    next
      case (Inr allocation)
      with Cons.prems(1) entry eq
      have r: "hv_tech_suppliers self region eco (ts0(technology := allocation)) = Inr ts"
        by simp
      from hv_tech_suppliers_other [OF r] tn eq have "ts technology = allocation" by simp
      with Inr show ?thesis by simp
    qed
  next
    case False
    with Cons.prems(3) have m: "(technology, names) \<in> set eco" by simp
    with tn have nt: "technology \<noteq> t" by force
    show ?thesis
    proof (cases "suppliers_of_technology self region ns")
      case (Inl e)
      with Cons.prems(1) entry have "hv_tech_suppliers self region eco ts0 = Inr ts"
        by (auto split: if_splits)
      from Cons.IH [OF this d m] show ?thesis .
    next
      case (Inr allocation)
      with Cons.prems(1) entry
      have "hv_tech_suppliers self region eco (ts0(t := allocation)) = Inr ts" by simp
      from Cons.IH [OF this d m] nt show ?thesis by simp
    qed
  qed
qed

lemma map_err_Inr_set:
  assumes "map_err f xs = Inr ys"
  shows "\<forall>y \<in> set ys. \<exists>x \<in> set xs. f x = Inr y"
  using assms
  by (induction xs arbitrary: ys) (auto split: sum.splits)

lemma py_dict_keys_distinct: "distinct (map fst (py_dict pairs))"
proof -
  have "distinct (map fst d) \<Longrightarrow>
        distinct (map fst (foldl (\<lambda>d (k, v). AList.update k v d) d pairs))" for d
    by (induction pairs arbitrary: d) (auto simp: distinct_update split: prod.splits)
  then show ?thesis by (simp add: py_dict_def)
qed

lemma py_dict_entries: "set (py_dict pairs) \<subseteq> set pairs"
proof -
  have "set (foldl (\<lambda>d (k, v). AList.update k v d) d pairs) \<subseteq> set d \<union> set pairs"
    for d :: "('a \<times> 'b) list"
  proof (induction pairs arbitrary: d)
    case Nil
    then show ?case by simp
  next
    case (Cons p pairs)
    obtain k v where p: "p = (k, v)" by (cases p)
    have "set (AList.update k v d) \<subseteq> insert (k, v) (set d)"
      by (induction d) auto
    with Cons [of "AList.update k v d"] p show ?case by auto
  qed
  from this [of "[]"] show ?thesis by (simp add: py_dict_def)
qed

lemma ecoinvent_technologies_entries:
  assumes "ecoinvent_technologies self technologies = Inr eco"
  shows "distinct (map fst eco) \<and>
         (\<forall>(technology, names) \<in> set eco.
            technology \<in> set technologies \<and> powerplant_map self technology = Some names)"
proof -
  from assms obtain pairs where
    m: "map_err (\<lambda>technology.
                 case powerplant_map self technology of
                   None \<Rightarrow> Inl KeyError
                 | Some names \<Rightarrow> Inr (technology, names)) technologies = Inr pairs"
    and e: "eco = py_dict pairs"
    by (auto simp: ecoinvent_technologies_def bind_err_Inr_iff)
  from map_err_Inr_set [OF m]
  have "\<forall>(technology, names) \<in> set pairs.
          technology \<in> set technologies \<and> powerplant_map self technology = Some names"
    by (auto split: option.splits)
  with py_dict_entries [of pairs] e show ?thesis
    by (auto simp: py_dict_keys_distinct)
qed

section \<open>Properties: the efficiency updates as a whole\<close>

lemma map_err_list_all2:
  assumes "map_err f xs = Inr ys"
  shows "list_all2 (\<lambda>x y. f x = Inr y) xs ys"
  using assms
  by (induction xs arbitrary: ys) (auto split: sum.splits)

text \<open>
  The two efficiency updates change the datasets that pass their filters, each by the body
  of its loop, and leave every other dataset as it is.
\<close>

lemma update_efficiency_of_solar_pv_database:
  assumes "update_efficiency_of_solar_pv self = Inr self'"
  shows "list_all2 (\<lambda>dataset dataset'.
            if is_pv_installation dataset
            then update_pv_dataset (module_eff self) dataset = Inr dataset'
            else dataset' = dataset)
           (database self) (database self')"
proof -
  from assms obtain data where
    m: "map_err (\<lambda>dataset.
                 if is_pv_installation dataset then update_pv_dataset (module_eff self) dataset
                 else Inr dataset) (database self) = Inr data"
    and s: "self' = self\<lparr>database := data\<rparr>"
    by (auto simp: update_efficiency_of_solar_pv_def bind_err_Inr_iff)
  from map_err_list_all2 [OF m] have
    "list_all2 (\<lambda>dataset dataset'.
            if is_pv_installation dataset
            then update_pv_dataset (module_eff self) dataset = Inr dataset'
            else dataset' = dataset) (database self) data"
    by (rule list_all2_mono) (auto split: if_splits)
  with s show ?thesis by simp
qed

lemma rescale_technology_database:
  assumes "rescale_technology self (technology, dict_technology) = Inr self'"
  shows "list_all2 (\<lambda>dataset dataset'.
            if ds_unit dataset = ''kilowatt hour'' \<and>
               (\<exists>n \<in> set (technology_filters dict_technology). str_in n (ds_name dataset))
            then update_dataset_efficiency self technology dict_technology dataset = Inr dataset'
            else dataset' = dataset)
           (database self) (database self')"
proof -
  from assms obtain data where
    m: "map_err (\<lambda>dataset.
                  if ds_unit dataset = ''kilowatt hour'' \<and>
                     (\<exists>n \<in> set (technology_filters dict_technology). str_in n (ds_name dataset))
                  then update_dataset_efficiency self technology dict_technology dataset
                  else Inr dataset) (database self) = Inr data"
    and s: "self' = self\<lparr>database := data\<rparr>"
    by (auto simp: rescale_technology_def bind_err_Inr_iff)
  from map_err_list_all2 [OF m] have
    "list_all2 (\<lambda>dataset dataset'.
            if ds_unit dataset = ''kilowatt hour'' \<and>
               (\<exists>n \<in> set (technology_filters dict_technology). str_in n (ds_name dataset))
            then update_dataset_efficiency self technology dict_technology dataset = Inr dataset'
            else dataset' = dataset) (database self) data"
    by (rule list_all2_mono) (auto split: if_splits)
  with s show ?thesis by simp
qed

end
